theory Spec2Isabelle
  imports Complex_Main
begin

section \<open>Data model of the streaming backend\<close>

text \<open>
  The server keeps its durable state in a relational store reached through an ORM
  (tables \<open>user_profiles\<close>, \<open>games\<close>, \<open>game_sessions\<close>, \<open>session_participants\<close>,
  \<open>session_chat\<close>, \<open>session_history\<close>). Each table is a list of rows; a row is a record
  with the columns the handlers read or write. Identifiers are strings, timestamps are
  milliseconds, nullable columns are options.
\<close>

datatype SessionStatus = STARTING | ACTIVE | ENDING | ENDED | ERROR

datatype ParticipantRole = PLAYER | SPECTATOR | MODERATOR

datatype MessageType = CHAT | SYSTEM | GAME_EVENT

datatype VideoQuality = Q720P | Q1080P | Q1440P

record UserProfile =
  up_id :: string
  platiumUserId :: string
  username :: string
  displayName :: "string option"

record Game =
  game_id :: string
  playCount :: int

record GameSession =
  gs_id :: string
  gameId :: string
  createdBy :: string
  sessionCode :: "string option"
  status :: SessionStatus
  isPrivate :: bool
  maxPlayers :: int
  currentPlayers :: int
  spectatorCount :: int
  videoQuality :: VideoQuality
  fps :: int
  startedAt :: nat
  endedAt :: "nat option"

record SessionParticipant =
  sp_sessionId :: string
  sp_userId :: string
  role :: ParticipantRole
  isHost :: bool
  joinedAt :: nat
  leftAt :: "nat option"
  totalDurationMinutes :: int

record SessionChat =
  sc_id :: string
  sc_sessionId :: string
  sc_userId :: string
  sc_message :: string
  sc_type :: MessageType
  sc_createdAt :: nat

record SessionHistory =
  sh_id :: string
  sh_sessionId :: string
  sh_userId :: string
  sh_durationMinutes :: int
  sh_totalPlayers :: int

record store =
  userProfiles :: "UserProfile list"
  games :: "Game list"
  gameSessions :: "GameSession list"
  sessionParticipants :: "SessionParticipant list"
  sessionChat :: "SessionChat list"
  sessionHistory :: "SessionHistory list"

text \<open>
  What leaves the process besides the HTTP reply: socket events (to a room, to one socket,
  or to every socket) and messages published on the cache's channel.
\<close>

datatype target = Room string | Socket string | Everyone

record world =
  db :: store
  emitted :: "(target \<times> string \<times> string list) list"
  published :: "(string \<times> string list) list"

text \<open>
  A non-negative double-precision number is a significand below \<open>2^53\<close> over a power of two:
  \<open>mant / 2^scale\<close>.
\<close>

record double =
  mant :: nat
  scale :: nat

text \<open>
  What a request takes from its surroundings: the clock, the identifiers the store
  generates for new rows, and the stream of numbers \<open>Math.random()\<close> returns
  (the k-th call of the request returns \<open>env_random k\<close>).
\<close>

record env =
  env_now :: nat
  env_profileId :: string
  env_sessionId :: string
  env_chatId :: string
  env_random :: "nat \<Rightarrow> double"

text \<open>The authenticated user the token validator attaches to a request.\<close>

record ReqUser =
  ru_id :: string
  ru_username :: "string option"
  ru_name :: "string option"

datatype body =
    ErrorBody string
  | ErrorSessionBody string string
  | SuccessBody
  | CreatedBody string "string option"
  | JoinedBody SessionParticipant GameSession

datatype response = Reply nat body

section \<open>Join codes\<close>

definition chars :: string where
  "chars = ''ABCDEFGHJKMNPQRSTUVWXYZ23456789''"

text \<open>\<open>Math.random()\<close> returns a double that is at least 0 and less than 1.\<close>

definition unitDouble :: "double \<Rightarrow> bool" where
  "unitDouble d = (mant d < 2 ^ 53 \<and> mant d < 2 ^ scale d \<and> scale d \<le> 1074)"

text \<open>
  The product of a double and a small whole number, as the floating-point unit computes
  it: the exact product \<open>n / 2^scale\<close> is rounded to 53 significant bits, to the nearest
  and on a tie to the even significand. \<open>excess n\<close> is the number of bits \<open>n\<close> has beyond 53,
  \<open>roundHalfEven n s\<close> is \<open>n\<close> without its last \<open>s\<close> bits, rounded. \<open>floorTimes d c\<close> is
  \<open>Math.floor(d * c)\<close>.
\<close>

function excess :: "nat \<Rightarrow> nat" where
  "excess n = (if n < 2 ^ 53 then 0 else Suc (excess (n div 2)))"
  by pat_completeness auto
termination
  by (relation "measure id") auto

declare excess.simps [simp del]

definition roundHalfEven :: "nat \<Rightarrow> nat \<Rightarrow> nat" where
  "roundHalfEven n s =
     (let q = n div 2 ^ s; r = n mod 2 ^ s
      in if 2 * r < 2 ^ s then q
         else if 2 * r > 2 ^ s then q + 1
         else if even q then q else q + 1)"

definition floorTimes :: "double \<Rightarrow> nat \<Rightarrow> nat" where
  "floorTimes d c =
     (let n = mant d * c; s = excess n
      in (roundHalfEven n s * 2 ^ s) div 2 ^ scale d)"

text \<open>
  \<open>chars[k]\<close> for the index \<open>k = Math.floor(Math.random() * chars.length)\<close>; outside the
  string the index yields \<open>undefined\<close>, which \<open>+=\<close> appends as the text "undefined".
\<close>

definition charAt :: "string \<Rightarrow> nat \<Rightarrow> string" where
  "charAt s k = (if k < length s then [s ! k] else ''undefined'')"

function genLoop :: "(nat \<Rightarrow> double) \<Rightarrow> nat \<Rightarrow> string \<Rightarrow> string" where
  "genLoop rnd i result =
     (if i < 6
      then genLoop rnd (i + 1) (result @ charAt chars (floorTimes (rnd i) (length chars)))
      else result)"
  by pat_completeness auto
termination
  by (relation "measure (\<lambda>(rnd, i, result). 6 - i)") auto

definition generateSessionCode :: "(nat \<Rightarrow> double) \<Rightarrow> string" where
  "generateSessionCode rnd = genLoop rnd 0 []"

definition unitDraws :: "(nat \<Rightarrow> double) \<Rightarrow> bool" where
  "unitDraws rnd = list_all (\<lambda>i. unitDouble (rnd i)) [0..<6]"

section \<open>The store\<close>

text \<open>
  Lookups by a unique key return the row or nothing. A \<open>create\<close> returns \<open>None\<close> where the
  store raises: a primary key or a unique index already holds the value, or a foreign key
  points to no row. An \<open>update\<close> by key returns \<open>None\<close> where the store raises because no
  row has the key; \<open>updateMany\<close> never raises. Every handler catches what the store raises
  and answers 500. Requests are taken one at a time, each reads the clock once, and the
  store, the cache and the sockets are taken to be reachable.
\<close>

definition findProfileByPlatiumId :: "string \<Rightarrow> store \<Rightarrow> UserProfile option" where
  "findProfileByPlatiumId pid d = find (\<lambda>p. platiumUserId p = pid) (userProfiles d)"

definition findSession :: "string \<Rightarrow> store \<Rightarrow> GameSession option" where
  "findSession sid d = find (\<lambda>s. gs_id s = sid) (gameSessions d)"

definition findParticipant :: "string \<Rightarrow> string \<Rightarrow> store \<Rightarrow> SessionParticipant option" where
  "findParticipant sid uid d =
     find (\<lambda>p. sp_sessionId p = sid \<and> sp_userId p = uid) (sessionParticipants d)"

definition createUserProfile :: "UserProfile \<Rightarrow> store \<Rightarrow> store option" where
  "createUserProfile p d =
     (if list_ex (\<lambda>q. up_id q = up_id p) (userProfiles d) then None
      else if list_ex (\<lambda>q. platiumUserId q = platiumUserId p) (userProfiles d) then None
      else if list_ex (\<lambda>q. username q = username p) (userProfiles d) then None
      else Some (d\<lparr>userProfiles := userProfiles d @ [p]\<rparr>))"

definition createGameSession :: "GameSession \<Rightarrow> store \<Rightarrow> store option" where
  "createGameSession s d =
     (if list_ex (\<lambda>t. gs_id t = gs_id s) (gameSessions d) then None
      else if sessionCode s \<noteq> None
              \<and> list_ex (\<lambda>t. sessionCode t = sessionCode s) (gameSessions d) then None
      else if \<not> list_ex (\<lambda>g. game_id g = gameId s) (games d) then None
      else if \<not> list_ex (\<lambda>p. up_id p = createdBy s) (userProfiles d) then None
      else Some (d\<lparr>gameSessions := gameSessions d @ [s]\<rparr>))"

definition createSessionParticipant :: "SessionParticipant \<Rightarrow> store \<Rightarrow> store option" where
  "createSessionParticipant p d =
     (if list_ex (\<lambda>q. sp_sessionId q = sp_sessionId p \<and> sp_userId q = sp_userId p)
           (sessionParticipants d) then None
      else if \<not> list_ex (\<lambda>s. gs_id s = sp_sessionId p) (gameSessions d) then None
      else if \<not> list_ex (\<lambda>q. up_id q = sp_userId p) (userProfiles d) then None
      else Some (d\<lparr>sessionParticipants := sessionParticipants d @ [p]\<rparr>))"

definition createSessionChat :: "SessionChat \<Rightarrow> store \<Rightarrow> store option" where
  "createSessionChat c d =
     (if list_ex (\<lambda>x. sc_id x = sc_id c) (sessionChat d) then None
      else if \<not> list_ex (\<lambda>s. gs_id s = sc_sessionId c) (gameSessions d) then None
      else if \<not> list_ex (\<lambda>q. up_id q = sc_userId c) (userProfiles d) then None
      else Some (d\<lparr>sessionChat := sessionChat d @ [c]\<rparr>))"

definition updateGameSession ::
  "string \<Rightarrow> (GameSession \<Rightarrow> GameSession) \<Rightarrow> store \<Rightarrow> store option" where
  "updateGameSession sid f d =
     (if list_ex (\<lambda>s. gs_id s = sid) (gameSessions d)
      then Some (d\<lparr>gameSessions := map (\<lambda>s. if gs_id s = sid then f s else s) (gameSessions d)\<rparr>)
      else None)"

definition updateGame :: "string \<Rightarrow> (Game \<Rightarrow> Game) \<Rightarrow> store \<Rightarrow> store option" where
  "updateGame gid f d =
     (if list_ex (\<lambda>g. game_id g = gid) (games d)
      then Some (d\<lparr>games := map (\<lambda>g. if game_id g = gid then f g else g) (games d)\<rparr>)
      else None)"

definition updateSessionParticipant ::
  "string \<Rightarrow> string \<Rightarrow> (SessionParticipant \<Rightarrow> SessionParticipant) \<Rightarrow> store \<Rightarrow> store option" where
  "updateSessionParticipant sid uid f d =
     (if list_ex (\<lambda>p. sp_sessionId p = sid \<and> sp_userId p = uid) (sessionParticipants d)
      then Some (d\<lparr>sessionParticipants :=
                   map (\<lambda>p. if sp_sessionId p = sid \<and> sp_userId p = uid then f p else p)
                     (sessionParticipants d)\<rparr>)
      else None)"

definition updateManySessionParticipants ::
  "(SessionParticipant \<Rightarrow> bool) \<Rightarrow> (SessionParticipant \<Rightarrow> SessionParticipant) \<Rightarrow> store \<Rightarrow> store" where
  "updateManySessionParticipants c f d =
     d\<lparr>sessionParticipants := map (\<lambda>p. if c p then f p else p) (sessionParticipants d)\<rparr>"

section \<open>Resolving the caller's profile\<close>

fun decimal :: "nat \<Rightarrow> string" where
  "decimal n =
     (if n < 10 then [''0123456789'' ! n]
      else decimal (n div 10) @ [''0123456789'' ! (n mod 10)])"

declare decimal.simps [simp del]

text \<open>
  The operator \<open>a || b\<close> on optional strings: \<open>a\<close> when it is a non-empty string, else \<open>b\<close>.
  With \<open>None\<close> for \<open>b\<close> it is the truthiness test of \<open>a\<close>: a missing and an empty string
  both count as false.
\<close>

definition orElse :: "string option \<Rightarrow> string option \<Rightarrow> string option" where
  "orElse a b = (case a of None \<Rightarrow> b | Some x \<Rightarrow> if x = [] then b else Some x)"

definition newProfile :: "env \<Rightarrow> ReqUser \<Rightarrow> UserProfile" where
  "newProfile e u =
     \<lparr>up_id = env_profileId e,
      platiumUserId = ru_id u,
      username = (case orElse (ru_username u) None of
                    Some x \<Rightarrow> x
                  | None \<Rightarrow> ''user_'' @ decimal (env_now e)),
      displayName = orElse (ru_name u) (ru_username u)\<rparr>"

definition getOrCreateProfile :: "env \<Rightarrow> ReqUser \<Rightarrow> store \<Rightarrow> (store \<times> UserProfile) option" where
  "getOrCreateProfile e u d =
     (case findProfileByPlatiumId (ru_id u) d of
        Some p \<Rightarrow> Some (d, p)
      | None \<Rightarrow> map_option (\<lambda>d'. (d', newProfile e u)) (createUserProfile (newProfile e u) d))"

section \<open>Session handlers\<close>

definition roleName :: "ParticipantRole \<Rightarrow> string" where
  "roleName r = (case r of PLAYER \<Rightarrow> ''PLAYER'' | SPECTATOR \<Rightarrow> ''SPECTATOR''
                 | MODERATOR \<Rightarrow> ''MODERATOR'')"

definition room :: "string \<Rightarrow> target" where
  "room sid = Room (''session:'' @ sid)"

record CreateBody =
  cb_gameId :: string
  cb_maxPlayers :: "int option"
  cb_isPrivate :: "bool option"
  cb_videoQuality :: "string option"
  cb_fps :: "int option"

text \<open>
  The columns \<open>max_players\<close> and \<open>fps\<close> are 32-bit integers and \<open>videoQuality\<close> is an enum.
  The ORM refuses a row whose integers are out of range or whose enum value is not the
  name of a member. The ORM's schema, which gives the members their names, is not among
  the sources, so the naming is a parameter \<open>vq\<close>. A member's name is an identifier and
  starts with a letter; the labels \<open>720p\<close>, \<open>1080p\<close> and \<open>1440p\<close> of the database type are
  not names of members, whatever the naming is.
\<close>

definition isLetter :: "char \<Rightarrow> bool" where
  "isLetter c = (c \<in> set ''ABCDEFGHIJKLMNOPQRSTUVWXYZabcdefghijklmnopqrstuvwxyz'')"

definition memberNamed :: "(string \<Rightarrow> VideoQuality option) \<Rightarrow> string \<Rightarrow> VideoQuality option" where
  "memberNamed vq s = (case s of [] \<Rightarrow> None | c # cs \<Rightarrow> if isLetter c then vq s else None)"

definition int32 :: "int \<Rightarrow> bool" where
  "int32 x = (- 2147483648 \<le> x \<and> x \<le> 2147483647)"

text \<open>The row \<open>gameSession.create\<close> is asked to insert, or \<open>None\<close> where the ORM refuses the data.\<close>

definition newSession ::
  "(string \<Rightarrow> VideoQuality option) \<Rightarrow> env \<Rightarrow> CreateBody \<Rightarrow> UserProfile \<Rightarrow> GameSession option" where
  "newSession vq e b p =
     (let mp = (case cb_maxPlayers b of Some x \<Rightarrow> x | None \<Rightarrow> 1);
          f = (case cb_fps b of Some x \<Rightarrow> x | None \<Rightarrow> 60)
      in case memberNamed vq (case cb_videoQuality b of Some x \<Rightarrow> x | None \<Rightarrow> ''1080p'') of
           None \<Rightarrow> None
         | Some q \<Rightarrow>
             if int32 mp \<and> int32 f
             then Some
               \<lparr>gs_id = env_sessionId e,
                gameId = cb_gameId b,
                createdBy = up_id p,
                sessionCode = Some (generateSessionCode (env_random e)),
                status = STARTING,
                isPrivate = (case cb_isPrivate b of Some x \<Rightarrow> x | None \<Rightarrow> False),
                maxPlayers = mp,
                currentPlayers = 0,
                spectatorCount = 0,
                videoQuality = q,
                fps = f,
                startedAt = env_now e,
                endedAt = None\<rparr>
             else None)"

definition newParticipant :: "env \<Rightarrow> string \<Rightarrow> string \<Rightarrow> ParticipantRole \<Rightarrow> bool \<Rightarrow> SessionParticipant" where
  "newParticipant e sid uid r h =
     \<lparr>sp_sessionId = sid, sp_userId = uid, role = r, isHost = h,
      joinedAt = env_now e, leftAt = None, totalDurationMinutes = 0\<rparr>"

text \<open>
  \<open>POST /api/sessions\<close>. The session row and the host's participant row are inserted in
  one transaction: if the ORM refuses the data or either insert raises, neither row stays.
\<close>

definition createSession ::
  "(string \<Rightarrow> VideoQuality option) \<Rightarrow> env \<Rightarrow> ReqUser \<Rightarrow> CreateBody \<Rightarrow> world
     \<Rightarrow> response \<times> world" where
  "createSession vq e u b w =
     (case getOrCreateProfile e u (db w) of
        None \<Rightarrow> (Reply 500 (ErrorBody ''Failed to create session''), w)
      | Some (d1, userProfile) \<Rightarrow>
          (case find (\<lambda>s. createdBy s = up_id userProfile \<and> (status s = STARTING \<or> status s = ACTIVE))
                  (gameSessions d1) of
             Some existingSession \<Rightarrow>
               (Reply 400 (ErrorSessionBody ''You already have an active session'' (gs_id existingSession)),
                w\<lparr>db := d1\<rparr>)
           | None \<Rightarrow>
               (case Option.bind (newSession vq e b userProfile)
                       (\<lambda>s. Option.bind (createGameSession s d1)
                          (createSessionParticipant
                             (newParticipant e (env_sessionId e) (up_id userProfile) PLAYER True))) of
                  None \<Rightarrow> (Reply 500 (ErrorBody ''Failed to create session''), w\<lparr>db := d1\<rparr>)
                | Some d2 \<Rightarrow>
                    (case updateGameSession (env_sessionId e) (\<lambda>s. s\<lparr>status := ACTIVE\<rparr>) d2 of
                       None \<Rightarrow> (Reply 500 (ErrorBody ''Failed to create session''), w\<lparr>db := d2\<rparr>)
                     | Some d3 \<Rightarrow>
                         (case updateGame (cb_gameId b) (\<lambda>g. g\<lparr>playCount := playCount g + 1\<rparr>) d3 of
                            None \<Rightarrow> (Reply 500 (ErrorBody ''Failed to create session''), w\<lparr>db := d3\<rparr>)
                          | Some d4 \<Rightarrow>
                              (Reply 201 (CreatedBody (env_sessionId e)
                                           (Some (generateSessionCode (env_random e)))),
                               w\<lparr>db := d4,
                                 published := published w @
                                   [(''session_updates'',
                                     [''session_created'', env_sessionId e, cb_gameId b])]\<rparr>))))))"

text \<open>\<open>POST /api/sessions/:id/join\<close>; the role in the request body defaults to player.\<close>

definition requestedRole :: "ParticipantRole option \<Rightarrow> ParticipantRole" where
  "requestedRole bodyRole = (case bodyRole of Some x \<Rightarrow> x | None \<Rightarrow> PLAYER)"

definition joinSession ::
  "env \<Rightarrow> ReqUser \<Rightarrow> string \<Rightarrow> ParticipantRole option \<Rightarrow> world \<Rightarrow> response \<times> world" where
  "joinSession e u sid bodyRole w =
     (let r = requestedRole bodyRole in
      case getOrCreateProfile e u (db w) of
        None \<Rightarrow> (Reply 500 (ErrorBody ''Failed to join session''), w)
      | Some (d1, userProfile) \<Rightarrow>
          (case findSession sid d1 of
             None \<Rightarrow> (Reply 404 (ErrorBody ''Session not found or not active''), w\<lparr>db := d1\<rparr>)
           | Some session \<Rightarrow>
               if status session \<noteq> ACTIVE
               then (Reply 404 (ErrorBody ''Session not found or not active''), w\<lparr>db := d1\<rparr>)
               else if currentPlayers session \<ge> maxPlayers session \<and> r = PLAYER
               then (Reply 400 (ErrorBody ''Session is full''), w\<lparr>db := d1\<rparr>)
               else if (case findParticipant sid (up_id userProfile) d1 of
                          Some existingParticipant \<Rightarrow> leftAt existingParticipant = None
                        | None \<Rightarrow> False)
               then (Reply 400 (ErrorBody ''Already in this session''), w\<lparr>db := d1\<rparr>)
               else
                 (case createSessionParticipant
                         (newParticipant e sid (up_id userProfile) r False) d1 of
                    None \<Rightarrow> (Reply 500 (ErrorBody ''Failed to join session''), w\<lparr>db := d1\<rparr>)
                  | Some d2 \<Rightarrow>
                      (Reply 200 (JoinedBody (newParticipant e sid (up_id userProfile) r False) session),
                       w\<lparr>db := d2,
                         emitted := emitted w @
                           [(room sid, ''user_joined'',
                             [up_id userProfile, username userProfile, roleName r])]\<rparr>))))"

text \<open>\<open>DELETE /api/sessions/:id/leave\<close>.\<close>

definition leaveSession :: "env \<Rightarrow> ReqUser \<Rightarrow> string \<Rightarrow> world \<Rightarrow> response \<times> world" where
  "leaveSession e u sid w =
     (case findProfileByPlatiumId (ru_id u) (db w) of
        None \<Rightarrow> (Reply 404 (ErrorBody ''User profile not found''), w)
      | Some userProfile \<Rightarrow>
          (case updateSessionParticipant sid (up_id userProfile)
                  (\<lambda>p. p\<lparr>leftAt := Some (env_now e)\<rparr>) (db w) of
             None \<Rightarrow> (Reply 500 (ErrorBody ''Failed to leave session''), w)
           | Some d1 \<Rightarrow>
               (Reply 200 SuccessBody,
                w\<lparr>db := d1,
                  emitted := emitted w @ [(room sid, ''user_left'', [up_id userProfile])]\<rparr>)))"

text \<open>
  \<open>DELETE /api/sessions/:id\<close> (host only). The three store writes of the successful path
  are named, so that the intermediate status can be spoken about.
\<close>

definition markEnding :: "env \<Rightarrow> string \<Rightarrow> store \<Rightarrow> store option" where
  "markEnding e sid d =
     updateGameSession sid (\<lambda>s. s\<lparr>status := ENDING, endedAt := Some (env_now e)\<rparr>) d"

definition markParticipantsLeft :: "env \<Rightarrow> string \<Rightarrow> store \<Rightarrow> store" where
  "markParticipantsLeft e sid d =
     updateManySessionParticipants (\<lambda>p. sp_sessionId p = sid \<and> leftAt p = None)
       (\<lambda>p. p\<lparr>leftAt := Some (env_now e)\<rparr>) d"

definition markEnded :: "string \<Rightarrow> store \<Rightarrow> store option" where
  "markEnded sid d = updateGameSession sid (\<lambda>s. s\<lparr>status := ENDED\<rparr>) d"

definition endSession :: "env \<Rightarrow> ReqUser \<Rightarrow> string \<Rightarrow> world \<Rightarrow> response \<times> world" where
  "endSession e u sid w =
     (let userProfile = findProfileByPlatiumId (ru_id u) (db w) in
      case findSession sid (db w) of
        None \<Rightarrow> (Reply 404 (ErrorBody ''Session not found''), w)
      | Some session \<Rightarrow>
          if Some (createdBy session) \<noteq> map_option up_id userProfile
          then (Reply 403 (ErrorBody ''Only the host can end the session''), w)
          else
            (case markEnding e sid (db w) of
               None \<Rightarrow> (Reply 500 (ErrorBody ''Failed to end session''), w)
             | Some d1 \<Rightarrow>
                 (case markEnded sid (markParticipantsLeft e sid d1) of
                    None \<Rightarrow> (Reply 500 (ErrorBody ''Failed to end session''),
                             w\<lparr>db := markParticipantsLeft e sid d1\<rparr>)
                  | Some d3 \<Rightarrow>
                      (Reply 200 SuccessBody,
                       w\<lparr>db := d3,
                         emitted := emitted w @ [(room sid, ''session_ended'', [])]\<rparr>))))"

section \<open>Realtime chat\<close>

record socket =
  sock_id :: string
  sock_userId :: "string option"

text \<open>
  The handler of the \<open>send_message\<close> event; the message type defaults to chat. A failed
  insert is logged and nothing is broadcast.
\<close>

definition send_message ::
  "env \<Rightarrow> socket \<Rightarrow> string \<Rightarrow> string \<Rightarrow> MessageType option \<Rightarrow> world \<Rightarrow> world" where
  "send_message e sock sid message bodyType w =
     (case orElse (sock_userId sock) None of
        None \<Rightarrow> w
      | Some uid \<Rightarrow>
          (case createSessionChat
                  \<lparr>sc_id = env_chatId e, sc_sessionId = sid, sc_userId = uid,
                   sc_message = message,
                   sc_type = (case bodyType of Some t \<Rightarrow> t | None \<Rightarrow> CHAT),
                   sc_createdAt = env_now e\<rparr> (db w) of
             None \<Rightarrow> w
           | Some d1 \<Rightarrow>
               w\<lparr>db := d1,
                 emitted := emitted w @ [(room sid, ''new_message'', [env_chatId e, uid, message])]\<rparr>))"

section \<open>A small run of the server\<close>

text \<open>
  A store with one game and nobody registered; a host who creates a session for two
  players; a guest. Each request has its own clock reading (in milliseconds, ten minutes
  apart) and fresh identifiers. The first
  six numbers the random source gives to \<open>env1\<close> and to \<open>env2\<close> are 0, so both requests
  generate the code \<open>AAAAAA\<close>; the numbers \<open>env2\<close> would give after them are 3/64.
\<close>

definition world0 :: world where
  "world0 =
     \<lparr>db = \<lparr>userProfiles = [], games = [\<lparr>game_id = ''g1'', playCount = 0\<rparr>],
             gameSessions = [], sessionParticipants = [], sessionChat = [],
             sessionHistory = []\<rparr>,
      emitted = [], published = []\<rparr>"

text \<open>A naming of the enum's members, for the run.\<close>

definition names1 :: "string \<Rightarrow> VideoQuality option" where
  "names1 s = (if s = ''HD_720P'' then Some Q720P
               else if s = ''HD_1080P'' then Some Q1080P
               else if s = ''HD_1440P'' then Some Q1440P else None)"

definition hostUser :: ReqUser where
  "hostUser = \<lparr>ru_id = ''ext-h'', ru_username = Some ''hana'', ru_name = None\<rparr>"

definition guestUser :: ReqUser where
  "guestUser = \<lparr>ru_id = ''ext-a'', ru_username = Some ''abel'', ru_name = None\<rparr>"

definition thirdUser :: ReqUser where
  "thirdUser = \<lparr>ru_id = ''ext-b'', ru_username = Some ''bela'', ru_name = None\<rparr>"

definition body1 :: CreateBody where
  "body1 = \<lparr>cb_gameId = ''g1'', cb_maxPlayers = Some 2, cb_isPrivate = None,
             cb_videoQuality = Some ''HD_1080P'', cb_fps = None\<rparr>"

definition env1 :: env where
  "env1 = \<lparr>env_now = 600000, env_profileId = ''u1'', env_sessionId = ''s1'',
            env_chatId = ''c1'', env_random = (\<lambda>i. \<lparr>mant = 0, scale = 1\<rparr>)\<rparr>"

definition env2 :: env where
  "env2 = \<lparr>env_now = 1200000, env_profileId = ''u2'', env_sessionId = ''s2'',
            env_chatId = ''c2'', env_random = (\<lambda>i. if i < 6 then \<lparr>mant = 0, scale = 1\<rparr>
                               else \<lparr>mant = 3, scale = 6\<rparr>)\<rparr>"

definition env3 :: env where
  "env3 = \<lparr>env_now = 1800000, env_profileId = ''u3'', env_sessionId = ''s3'',
            env_chatId = ''c3'', env_random = (\<lambda>i. \<lparr>mant = 1, scale = 1\<rparr>)\<rparr>"

definition env4 :: env where
  "env4 = \<lparr>env_now = 2400000, env_profileId = ''u4'', env_sessionId = ''s4'',
            env_chatId = ''c4'', env_random = (\<lambda>i. \<lparr>mant = 1, scale = 1\<rparr>)\<rparr>"

definition hostProfile :: UserProfile where
  "hostProfile = \<lparr>up_id = ''u1'', platiumUserId = ''ext-h'', username = ''hana'',
                   displayName = Some ''hana''\<rparr>"

definition guestProfile :: UserProfile where
  "guestProfile = \<lparr>up_id = ''u2'', platiumUserId = ''ext-a'', username = ''abel'',
                    displayName = Some ''abel''\<rparr>"

definition session1 :: GameSession where
  "session1 =
     \<lparr>gs_id = ''s1'', gameId = ''g1'', createdBy = ''u1'', sessionCode = Some ''AAAAAA'',
      status = ACTIVE, isPrivate = False, maxPlayers = 2, currentPlayers = 0,
      spectatorCount = 0, videoQuality = Q1080P, fps = 60, startedAt = 600000,
      endedAt = None\<rparr>"

definition hostRow :: SessionParticipant where
  "hostRow = \<lparr>sp_sessionId = ''s1'', sp_userId = ''u1'', role = PLAYER, isHost = True,
               joinedAt = 600000, leftAt = None, totalDurationMinutes = 0\<rparr>"

definition guestRow :: SessionParticipant where
  "guestRow = \<lparr>sp_sessionId = ''s1'', sp_userId = ''u2'', role = PLAYER, isHost = False,
                joinedAt = 1200000, leftAt = None, totalDurationMinutes = 0\<rparr>"

text \<open>After the host has created the session.\<close>

definition world1 :: world where
  "world1 =
     \<lparr>db = \<lparr>userProfiles = [hostProfile], games = [\<lparr>game_id = ''g1'', playCount = 1\<rparr>],
             gameSessions = [session1], sessionParticipants = [hostRow], sessionChat = [],
             sessionHistory = []\<rparr>,
      emitted = [],
      published = [(''session_updates'', [''session_created'', ''s1'', ''g1''])]\<rparr>"

text \<open>After the guest has joined as a player.\<close>

definition world2 :: world where
  "world2 =
     \<lparr>db = \<lparr>userProfiles = [hostProfile, guestProfile],
             games = [\<lparr>game_id = ''g1'', playCount = 1\<rparr>],
             gameSessions = [session1], sessionParticipants = [hostRow, guestRow],
             sessionChat = [], sessionHistory = []\<rparr>,
      emitted = [(Room ''session:s1'', ''user_joined'', [''u2'', ''abel'', ''PLAYER''])],
      published = [(''session_updates'', [''session_created'', ''s1'', ''g1''])]\<rparr>"

text \<open>After the guest has left again.\<close>

definition world3 :: world where
  "world3 =
     \<lparr>db = \<lparr>userProfiles = [hostProfile, guestProfile],
             games = [\<lparr>game_id = ''g1'', playCount = 1\<rparr>],
             gameSessions = [session1],
             sessionParticipants = [hostRow, guestRow\<lparr>leftAt := Some 1800000\<rparr>],
             sessionChat = [], sessionHistory = []\<rparr>,
      emitted = [(Room ''session:s1'', ''user_joined'', [''u2'', ''abel'', ''PLAYER'']),
                 (Room ''session:s1'', ''user_left'', [''u2''])],
      published = [(''session_updates'', [''session_created'', ''s1'', ''g1''])]\<rparr>"

text \<open>After the host has ended the session while the guest was still in it.\<close>

definition world4 :: world where
  "world4 =
     \<lparr>db = \<lparr>userProfiles = [hostProfile, guestProfile],
             games = [\<lparr>game_id = ''g1'', playCount = 1\<rparr>],
             gameSessions = [session1\<lparr>status := ENDED, endedAt := Some 2400000\<rparr>],
             sessionParticipants =
               [hostRow\<lparr>leftAt := Some 2400000\<rparr>, guestRow\<lparr>leftAt := Some 2400000\<rparr>],
             sessionChat = [], sessionHistory = []\<rparr>,
      emitted = [(Room ''session:s1'', ''user_joined'', [''u2'', ''abel'', ''PLAYER'']),
                 (Room ''session:s1'', ''session_ended'', [])],
      published = [(''session_updates'', [''session_created'', ''s1'', ''g1''])]\<rparr>"



definition env5 :: env where
  "env5 = \<lparr>env_now = 3000000, env_profileId = ''u5'', env_sessionId = ''s5'',
            env_chatId = ''c5'', env_random = (\<lambda>i. \<lparr>mant = 1, scale = 1\<rparr>)\<rparr>"

section \<open>Sequences of joins and leaves, and what the claims count\<close>

datatype request =
    Join env ReqUser "ParticipantRole option"
  | Leave env ReqUser

fun applyRequest :: "string \<Rightarrow> world \<Rightarrow> request \<Rightarrow> world" where
  "applyRequest sid w (Join e u r) = snd (joinSession e u sid r w)"
| "applyRequest sid w (Leave e u) = snd (leaveSession e u sid w)"

definition runRequests :: "string \<Rightarrow> request list \<Rightarrow> world \<Rightarrow> world" where
  "runRequests sid rs w = foldl (applyRequest sid) w rs"

text \<open>The join codes held by sessions are pairwise different.\<close>

definition codesDistinct :: "store \<Rightarrow> bool" where
  "codesDistinct d = distinct (filter (\<lambda>c. c \<noteq> None) (map sessionCode (gameSessions d)))"

definition codeHeld :: "string \<Rightarrow> store \<Rightarrow> bool" where
  "codeHeld c d = list_ex (\<lambda>t. sessionCode t = Some c) (gameSessions d)"

text \<open>Counting the rows the counters are meant to follow.\<close>

definition presentPlayers :: "string \<Rightarrow> store \<Rightarrow> nat" where
  "presentPlayers sid d =
     length (filter (\<lambda>p. sp_sessionId p = sid \<and> role p = PLAYER \<and> leftAt p = None)
               (sessionParticipants d))"

definition httpStatus :: "response \<Rightarrow> nat" where
  "httpStatus r = (case r of Reply c b \<Rightarrow> c)"

section \<open>Properties of join codes\<close>

lemma length_chars: "length chars = 31"
  by (simp add: chars_def)

lemma excess_le: "n < 2 ^ 53 * 2 ^ j \<Longrightarrow> excess n \<le> j"
proof (induction j arbitrary: n)
  case 0
  then show ?case by (simp add: excess.simps)
next
  case (Suc j)
  show ?case
  proof (cases "n < 2 ^ 53")
    case True
    then show ?thesis by (simp add: excess.simps)
  next
    case False
    define B :: nat where "B = 2 ^ 53 * 2 ^ j"
    have "(2::nat) ^ 53 * 2 ^ Suc j = 2 * B" by (simp add: B_def)
    with Suc.prems have "n < 2 * B" by (simp only:)
    then have "n div 2 < B" by linarith
    then have "excess (n div 2) \<le> j" unfolding B_def by (rule Suc.IH)
    with False show ?thesis by (subst excess.simps) simp
  qed
qed

lemma excess_zero: "n < 2 ^ 53 \<Longrightarrow> excess n = 0"
  by (simp add: excess.simps)

text \<open>Rounding to the nearest moves a number up by half a unit of the last place at most.\<close>

lemma roundHalfEven_upper: "2 * (roundHalfEven n s * 2 ^ s) \<le> 2 * n + 2 ^ s"
proof -
  define P :: nat where "P = 2 ^ s"
  define q where "q = n div P"
  define r where "r = n mod P"
  have n: "n = q * P + r" by (simp add: q_def r_def)
  have "(q + 1) * P = q * P + P" by (simp add: algebra_simps)
  then show ?thesis
    unfolding roundHalfEven_def Let_def P_def[symmetric] q_def[symmetric] r_def[symmetric]
    using n by auto
qed

text \<open>
  The rounded product of a double below 1 and 31 is below 31: the exact product is at least
  \<open>31 / 2^scale\<close> short of 31, and rounding at 53 bits adds \<open>16 / 2^scale\<close> at most.
\<close>

lemma floorTimes_31:
  assumes "unitDouble d"
  shows "floorTimes d 31 < 31"
proof -
  let ?n = "mant d * 31"
  let ?s = "excess ?n"
  from assms have m: "mant d < 2 ^ 53" "mant d < 2 ^ scale d"
    by (simp_all add: unitDouble_def)
  from m(2) have le: "?n + 31 \<le> 31 * 2 ^ scale d" by simp
  from m(1) have "?n < 2 ^ 53 * 2 ^ 5" by simp
  then have s5: "?s \<le> 5" by (rule excess_le)
  then have "(2::nat) ^ ?s \<le> 2 ^ 5" by (rule power_increasing) simp
  then have p: "(2::nat) ^ ?s \<le> 32" by simp
  have "2 * (roundHalfEven ?n ?s * 2 ^ ?s) \<le> 2 * ?n + 2 ^ ?s"
    by (rule roundHalfEven_upper)
  with p le have "roundHalfEven ?n ?s * 2 ^ ?s < 31 * 2 ^ scale d" by linarith
  then have "(roundHalfEven ?n ?s * 2 ^ ?s) div 2 ^ scale d < 31"
    by (rule less_mult_imp_div_less)
  then show ?thesis by (simp add: floorTimes_def Let_def)
qed

text \<open>
  Rounding matters: for the double next below 16/31 the exact product is below 16, the
  rounded product is 16, and the index is 16.
\<close>

lemma excess_near_16: "excess 144115188075855868 = 4"
  by (simp add: excess.simps)

lemma floorTimes_rounds_up:
  "unitDouble \<lparr>mant = 4648877034705028, scale = 53\<rparr>
   \<and> (4648877034705028 * 31) div (2::nat) ^ 53 = 15
   \<and> floorTimes \<lparr>mant = 4648877034705028, scale = 53\<rparr> 31 = 16"
  by (simp add: unitDouble_def floorTimes_def excess_near_16 roundHalfEven_def)

lemma charAt_chars:
  assumes "unitDouble d"
  shows "\<exists>c. charAt chars (floorTimes d (length chars)) = [c] \<and> c \<in> set chars"
proof -
  let ?k = "floorTimes d (length chars)"
  from floorTimes_31[OF assms] have k: "?k < length chars" by (simp add: length_chars)
  then have "chars ! ?k \<in> set chars" by (rule nth_mem)
  with k show ?thesis by (simp add: charAt_def)
qed

lemma genLoop_shape:
  assumes "\<And>j. i \<le> j \<Longrightarrow> j < 6 \<Longrightarrow> unitDouble (rnd j)" "i \<le> 6"
  shows "length (genLoop rnd i acc) = length acc + (6 - i)
         \<and> set (genLoop rnd i acc) \<subseteq> set acc \<union> set chars"
  using assms
proof (induction rnd i acc rule: genLoop.induct)
  case (1 rnd i result)
  show ?case
  proof (cases "i < 6")
    case False
    with "1.prems" show ?thesis by simp
  next
    case True
    from "1.prems"(1)[of i] True have "unitDouble (rnd i)" by simp
    then obtain c where c: "charAt chars (floorTimes (rnd i) (length chars)) = [c]" "c \<in> set chars"
      using charAt_chars by blast
    have ih: "length (genLoop rnd (i + 1) (result @ [c])) = length (result @ [c]) + (6 - (i + 1))
         \<and> set (genLoop rnd (i + 1) (result @ [c])) \<subseteq> set (result @ [c]) \<union> set chars"
      using "1.IH"[OF True] "1.prems" True c by simp
    have step: "genLoop rnd i result = genLoop rnd (i + 1) (result @ [c])"
      using True c by (subst genLoop.simps) simp
    from ih c(2) True show ?thesis unfolding step by auto
  qed
qed

lemma unitDraws_iff: "unitDraws rnd \<longleftrightarrow> (\<forall>j<6. unitDouble (rnd j))"
  by (auto simp: unitDraws_def list_all_iff)

text \<open>
  Claim C6, as the code has it: every generated join code is exactly 6 characters long and
  each character comes from the fixed alphabet, which has 31 distinct symbols (not 32)
  and contains none of the ambiguous characters 0, O, 1, I and L. The index of each
  character is the floor of the double-precision product of the draw and 31.
\<close>

theorem generateSessionCode_alphabet:
  "unitDraws rnd \<Longrightarrow>
     length (generateSessionCode rnd) = 6
     \<and> set (generateSessionCode rnd) \<subseteq> set chars
     \<and> length chars = 31 \<and> distinct chars
     \<and> set chars \<inter> set ''0O1IL'' = {}"
proof -
  assume u: "unitDraws rnd"
  then have "length (generateSessionCode rnd) = 6 \<and> set (generateSessionCode rnd) \<subseteq> set chars"
    using genLoop_shape[where i=0 and rnd=rnd and acc="[]"]
    by (simp add: unitDraws_iff generateSessionCode_def)
  moreover have "distinct chars" by (simp add: chars_def)
  moreover have "set chars \<inter> set ''0O1IL'' = {}" by (simp add: chars_def)
  ultimately show ?thesis by (simp add: length_chars)
qed

theorem generateSessionCode_alphabet_witness:
  "unitDraws (\<lambda>i. \<lparr>mant = 4648877034705028, scale = 53\<rparr>)
   \<and> generateSessionCode (\<lambda>i. \<lparr>mant = 4648877034705028, scale = 53\<rparr>) = ''TTTTTT''
   \<and> length (generateSessionCode (\<lambda>i. \<lparr>mant = 4648877034705028, scale = 53\<rparr>)) = 6
   \<and> set (generateSessionCode (\<lambda>i. \<lparr>mant = 4648877034705028, scale = 53\<rparr>)) \<subseteq> set chars
   \<and> length chars = 31 \<and> distinct chars
   \<and> set chars \<inter> set ''0O1IL'' = {}"
proof -
  have u: "unitDraws (\<lambda>i. \<lparr>mant = 4648877034705028, scale = 53\<rparr>)"
    by (simp add: unitDraws_iff unitDouble_def)
  have k: "floorTimes \<lparr>mant = 4648877034705028, scale = 53\<rparr> (length chars) = 16"
    using floorTimes_rounds_up by (simp add: length_chars)
  have t: "generateSessionCode (\<lambda>i. \<lparr>mant = 4648877034705028, scale = 53\<rparr>) = ''TTTTTT''"
    by (simp add: generateSessionCode_def k) (simp add: charAt_def chars_def)
  from generateSessionCode_alphabet[OF u] u t show ?thesis by simp
qed

text \<open>The alphabet the codes are drawn from does not have 32 symbols.\<close>

theorem alphabet_size_counterexample: "card (set chars) \<noteq> 32"
proof -
  have "distinct chars" by (simp add: chars_def)
  then have "card (set chars) = length chars" by (rule distinct_card)
  then show ?thesis by (simp add: length_chars)
qed

section \<open>Unfolding the model\<close>

lemmas store_defs =
  findProfileByPlatiumId_def findSession_def findParticipant_def createUserProfile_def
  createGameSession_def createSessionParticipant_def createSessionChat_def
  updateGameSession_def updateGame_def updateSessionParticipant_def
  updateManySessionParticipants_def

lemmas handler_defs =
  createSession_def joinSession_def leaveSession_def endSession_def send_message_def
  getOrCreateProfile_def newProfile_def orElse_def newSession_def newParticipant_def
  memberNamed_def isLetter_def int32_def names1_def
  requestedRole_def roleName_def room_def markEnding_def markEnded_def
  markParticipantsLeft_def generateSessionCode_def charAt_def chars_def httpStatus_def
  floorTimes_def excess_zero roundHalfEven_def

lemmas example_defs =
  world0_def world1_def world2_def world3_def world4_def hostUser_def guestUser_def
  body1_def env1_def env2_def env3_def env4_def env5_def hostProfile_def guestProfile_def
  session1_def hostRow_def guestRow_def

section \<open>The example run\<close>

lemma world1_created:
  "createSession names1 env1 hostUser body1 world0
     = (Reply 201 (CreatedBody ''s1'' (Some ''AAAAAA'')), world1)"
  by (simp add: handler_defs store_defs example_defs)

lemma world2_joined:
  "joinSession env2 guestUser ''s1'' (Some PLAYER) world1
     = (Reply 200 (JoinedBody guestRow session1), world2)"
  by (simp add: handler_defs store_defs example_defs)

lemma world3_left:
  "leaveSession env3 guestUser ''s1'' world2 = (Reply 200 SuccessBody, world3)"
  by (simp add: handler_defs store_defs example_defs)

lemma world4_ended:
  "endSession env4 hostUser ''s1'' world2 = (Reply 200 SuccessBody, world4)"
  by (simp add: handler_defs store_defs example_defs)

section \<open>Facts about the store\<close>

lemma find_None_list_ex: "find P xs = None \<longleftrightarrow> \<not> list_ex P xs"
  by (auto simp: find_None_iff list_ex_iff)


lemma getOrCreateProfile_tables:
  assumes "getOrCreateProfile e u d = Some (d1, p)"
  shows "gameSessions d1 = gameSessions d" "sessionParticipants d1 = sessionParticipants d"
    "sessionChat d1 = sessionChat d" "sessionHistory d1 = sessionHistory d" "games d1 = games d"
  using assms
  by (auto simp: getOrCreateProfile_def createUserProfile_def split: option.splits if_splits)


section \<open>Ending a session needs the host\<close>

text \<open>
  Claim C9: when the session exists and the requester is not its creator (the host), or
  has no profile at all, \<open>endSession\<close> answers 403 and writes nothing: the whole state,
  with the session's status and every participant row, is what it was.
\<close>

theorem endSession_forbidden:
  assumes "findSession sid (db w) = Some s"
    and "Some (createdBy s) \<noteq> map_option up_id (findProfileByPlatiumId (ru_id u) (db w))"
  shows "endSession e u sid w = (Reply 403 (ErrorBody ''Only the host can end the session''), w)"
  using assms by (simp add: endSession_def)

theorem endSession_forbidden_witness:
  "findSession ''s1'' (db world2) = Some session1
   \<and> Some (createdBy session1)
       \<noteq> map_option up_id (findProfileByPlatiumId (ru_id guestUser) (db world2))
   \<and> status session1 = ACTIVE
   \<and> endSession env3 guestUser ''s1'' world2
       = (Reply 403 (ErrorBody ''Only the host can end the session''), world2)"
proof -
  have a: "findSession ''s1'' (db world2) = Some session1"
    by (simp add: store_defs example_defs)
  have b: "Some (createdBy session1)
       \<noteq> map_option up_id (findProfileByPlatiumId (ru_id guestUser) (db world2))"
    by (simp add: store_defs example_defs)
  have c: "status session1 = ACTIVE" by (simp add: session1_def)
  from endSession_forbidden[OF a b, of env3] a b c show ?thesis by simp
qed

section \<open>Chat from an unauthenticated socket\<close>

text \<open>
  Claim C10: a \<open>send_message\<close> event on a socket with no user id bound is dropped. The state
  after the handler is the state before it: no chat row is stored, and nothing is emitted,
  neither to the session's room nor to the sender.
\<close>

theorem send_message_unauthenticated:
  "sock_userId sock = None \<Longrightarrow> send_message e sock sid message ty w = w"
  by (simp add: send_message_def orElse_def)

theorem send_message_unauthenticated_witness:
  "sock_userId \<lparr>sock_id = ''k1'', sock_userId = None\<rparr> = None
   \<and> send_message env3 \<lparr>sock_id = ''k1'', sock_userId = None\<rparr> ''s1'' ''hello'' None world2
       = world2"
  using send_message_unauthenticated
    [of "\<lparr>sock_id = ''k1'', sock_userId = None\<rparr>" env3 "''s1''" "''hello''" None world2]
  by simp

section \<open>Refusals of a join\<close>


lemma joinSession_not_active:
  assumes "getOrCreateProfile e u (db w) = Some (d1, p)" "findSession sid (db w) = Some s"
    "status s \<noteq> ACTIVE"
  shows "fst (joinSession e u sid r w) = Reply 404 (ErrorBody ''Session not found or not active'')"
  using assms getOrCreateProfile_tables(1)[OF assms(1)]
  by (simp add: joinSession_def findSession_def Let_def)



lemma joinSession_success_state:
  assumes "httpStatus (fst (joinSession e u sid r w)) = 200"
  shows "\<exists>d1 p s. getOrCreateProfile e u (db w) = Some (d1, p)
          \<and> findSession sid (db w) = Some s \<and> status s = ACTIVE
          \<and> \<not> (requestedRole r = PLAYER \<and> maxPlayers s \<le> currentPlayers s)
          \<and> \<not> list_ex (\<lambda>q. sp_sessionId q = sid \<and> sp_userId q = up_id p) (sessionParticipants (db w))
          \<and> db (snd (joinSession e u sid r w))
              = d1\<lparr>sessionParticipants := sessionParticipants d1 @ [newParticipant e sid (up_id p) (requestedRole r) False]\<rparr>"
proof -
  from assms obtain d1 p where g: "getOrCreateProfile e u (db w) = Some (d1, p)"
    by (cases "getOrCreateProfile e u (db w)") (auto simp: joinSession_def httpStatus_def Let_def)
  note t = getOrCreateProfile_tables[OF g]
  from assms g obtain s where s: "findSession sid d1 = Some s"
    by (cases "findSession sid d1") (auto simp: joinSession_def httpStatus_def Let_def)
  from assms g s have a: "status s = ACTIVE"
    "\<not> (requestedRole r = PLAYER \<and> maxPlayers s \<le> currentPlayers s)"
    by (auto simp: joinSession_def httpStatus_def Let_def split: if_splits)
  from assms g s a obtain d2 where
    c: "createSessionParticipant (newParticipant e sid (up_id p) (requestedRole r) False) d1 = Some d2"
    and d: "db (snd (joinSession e u sid r w)) = d2"
    by (cases "createSessionParticipant (newParticipant e sid (up_id p) (requestedRole r) False) d1")
       (auto simp: joinSession_def httpStatus_def Let_def split: if_splits option.splits)
  from c have "\<not> list_ex (\<lambda>q. sp_sessionId q = sid \<and> sp_userId q = up_id p) (sessionParticipants d1)"
    "d2 = d1\<lparr>sessionParticipants := sessionParticipants d1 @ [newParticipant e sid (up_id p) (requestedRole r) False]\<rparr>"
    by (auto simp: createSessionParticipant_def newParticipant_def split: if_splits)
  with g s a d t show ?thesis by (auto simp: findSession_def)
qed





section \<open>Joining again after leaving\<close>

lemma findParticipant_list_ex:
  "findParticipant sid uid d = None
   \<longleftrightarrow> \<not> list_ex (\<lambda>q. sp_sessionId q = sid \<and> sp_userId q = uid) (sessionParticipants d)"
  by (simp add: findParticipant_def find_None_list_ex)

text \<open>
  Claim C8 does not hold of the code. The handler lets a user whose row has left-at set
  pass the "already in this session" check and then inserts a new row with the same
  (session, user) key; the store rejects the insert, the handler answers 500, and the old
  row stays as it was, left-at still set.
\<close>

theorem rejoin_after_leave_fails:
  assumes "getOrCreateProfile e u (db w) = Some (d1, p)"
    and "findSession sid (db w) = Some s" and "status s = ACTIVE"
    and "\<not> (requestedRole r = PLAYER \<and> maxPlayers s \<le> currentPlayers s)"
    and "findParticipant sid (up_id p) (db w) = Some row" and "leftAt row \<noteq> None"
  shows "joinSession e u sid r w = (Reply 500 (ErrorBody ''Failed to join session''), w\<lparr>db := d1\<rparr>)
         \<and> findParticipant sid (up_id p) (db (snd (joinSession e u sid r w))) = Some row"
proof -
  note t = getOrCreateProfile_tables[OF assms(1)]
  have s: "findSession sid d1 = Some s"
    using assms(2) t(1) by (simp add: findSession_def)
  have row: "findParticipant sid (up_id p) d1 = Some row"
    using assms(5) t(2) by (simp add: findParticipant_def)
  then have "list_ex (\<lambda>q. sp_sessionId q = sid \<and> sp_userId q = up_id p) (sessionParticipants d1)"
    using findParticipant_list_ex[of sid "up_id p" d1] by simp
  then have c: "createSessionParticipant (newParticipant e sid (up_id p) (requestedRole r) False) d1 = None"
    by (simp add: createSessionParticipant_def newParticipant_def)
  have j: "joinSession e u sid r w = (Reply 500 (ErrorBody ''Failed to join session''), w\<lparr>db := d1\<rparr>)"
    using assms(1,3,4,6) s row c by (auto simp: joinSession_def Let_def)
  with row show ?thesis by simp
qed

theorem rejoin_after_leave_fails_witness:
  "getOrCreateProfile env4 guestUser (db world3) = Some (db world3, guestProfile)
   \<and> findSession ''s1'' (db world3) = Some session1 \<and> status session1 = ACTIVE
   \<and> currentPlayers session1 < maxPlayers session1
   \<and> findParticipant ''s1'' (up_id guestProfile) (db world3) = Some (guestRow\<lparr>leftAt := Some 1800000\<rparr>)
   \<and> joinSession env4 guestUser ''s1'' (Some PLAYER) world3
       = (Reply 500 (ErrorBody ''Failed to join session''), world3)
   \<and> findParticipant ''s1'' (up_id guestProfile)
        (db (snd (joinSession env4 guestUser ''s1'' (Some PLAYER) world3)))
       = Some (guestRow\<lparr>leftAt := Some 1800000\<rparr>)"
proof -
  have g: "getOrCreateProfile env4 guestUser (db world3) = Some (db world3, guestProfile)"
    by (simp add: handler_defs store_defs example_defs)
  have s: "findSession ''s1'' (db world3) = Some session1" "status session1 = ACTIVE"
    "currentPlayers session1 < maxPlayers session1"
    by (simp_all add: store_defs example_defs)
  then have n: "\<not> (requestedRole (Some PLAYER) = PLAYER \<and> maxPlayers session1 \<le> currentPlayers session1)"
    by simp
  have r: "findParticipant ''s1'' (up_id guestProfile) (db world3) = Some (guestRow\<lparr>leftAt := Some 1800000\<rparr>)"
    "leftAt (guestRow\<lparr>leftAt := Some 1800000\<rparr>) \<noteq> None"
    by (simp_all add: store_defs example_defs)
  have "world3\<lparr>db := db world3\<rparr> = world3" by simp
  with rejoin_after_leave_fails[OF g s(1) s(2) n r] g s r(1) show ?thesis by simp
qed

section \<open>Leaving a session\<close>

lemma updateSessionParticipant_None:
  "findParticipant sid uid d = None \<Longrightarrow> updateSessionParticipant sid uid f d = None"
  by (simp add: updateSessionParticipant_def findParticipant_list_ex)

lemma updateSessionParticipant_Some:
  "findParticipant sid uid d \<noteq> None \<Longrightarrow>
   updateSessionParticipant sid uid f d
     = Some (d\<lparr>sessionParticipants :=
                 map (\<lambda>q. if sp_sessionId q = sid \<and> sp_userId q = uid then f q else q)
                   (sessionParticipants d)\<rparr>)"
  by (simp add: updateSessionParticipant_def findParticipant_list_ex)

text \<open>
  Claim C7, as the code has it. For a caller with a profile, \<open>leaveSession\<close> fails only
  when the pair (session, user) has no participant row at all, and then with the general
  500 reply and no change of state. When a row exists, whether its left-at is null or
  already set, the call succeeds and sets left-at to the current time; the accumulated
  duration of the row and the session rows (with their counters) stay as they were.
\<close>

theorem leaveSession_effect:
  assumes "findProfileByPlatiumId (ru_id u) (db w) = Some p"
  shows
    "(findParticipant sid (up_id p) (db w) = None
        \<longrightarrow> leaveSession e u sid w = (Reply 500 (ErrorBody ''Failed to leave session''), w))
     \<and> (findParticipant sid (up_id p) (db w) \<noteq> None
        \<longrightarrow> fst (leaveSession e u sid w) = Reply 200 SuccessBody
          \<and> sessionParticipants (db (snd (leaveSession e u sid w)))
              = map (\<lambda>q. if sp_sessionId q = sid \<and> sp_userId q = up_id p
                          then q\<lparr>leftAt := Some (env_now e)\<rparr> else q)
                  (sessionParticipants (db w))
          \<and> map totalDurationMinutes (sessionParticipants (db (snd (leaveSession e u sid w))))
              = map totalDurationMinutes (sessionParticipants (db w))
          \<and> gameSessions (db (snd (leaveSession e u sid w))) = gameSessions (db w))"
proof -
  have a: "leaveSession e u sid w = (Reply 500 (ErrorBody ''Failed to leave session''), w)"
    if "findParticipant sid (up_id p) (db w) = None"
    using assms updateSessionParticipant_None[OF that] by (simp add: leaveSession_def)
  have b: "fst (leaveSession e u sid w) = Reply 200 SuccessBody
          \<and> sessionParticipants (db (snd (leaveSession e u sid w)))
              = map (\<lambda>q. if sp_sessionId q = sid \<and> sp_userId q = up_id p
                          then q\<lparr>leftAt := Some (env_now e)\<rparr> else q)
                  (sessionParticipants (db w))
          \<and> gameSessions (db (snd (leaveSession e u sid w))) = gameSessions (db w)"
    if "findParticipant sid (up_id p) (db w) \<noteq> None"
    using assms updateSessionParticipant_Some[OF that] by (simp add: leaveSession_def)
  have c: "map totalDurationMinutes
             (map (\<lambda>q. if sp_sessionId q = sid \<and> sp_userId q = up_id p
                        then q\<lparr>leftAt := Some (env_now e)\<rparr> else q) xs)
           = map totalDurationMinutes xs" for xs
    by (induction xs) auto
  from a b c show ?thesis by simp
qed

theorem leaveSession_effect_witness:
  "findProfileByPlatiumId (ru_id hostUser) (db world3) = Some hostProfile
   \<and> findParticipant ''zz'' (up_id hostProfile) (db world3) = None
   \<and> leaveSession env4 hostUser ''zz'' world3
       = (Reply 500 (ErrorBody ''Failed to leave session''), world3)
   \<and> findProfileByPlatiumId (ru_id guestUser) (db world3) = Some guestProfile
   \<and> findParticipant ''s1'' (up_id guestProfile) (db world3)
       = Some (guestRow\<lparr>leftAt := Some 1800000\<rparr>)
   \<and> fst (leaveSession env4 guestUser ''s1'' world3) = Reply 200 SuccessBody
   \<and> sessionParticipants (db (snd (leaveSession env4 guestUser ''s1'' world3)))
       = [hostRow, guestRow\<lparr>leftAt := Some 2400000\<rparr>]
   \<and> gameSessions (db (snd (leaveSession env4 guestUser ''s1'' world3))) = [session1]"
proof -
  have h: "findProfileByPlatiumId (ru_id hostUser) (db world3) = Some hostProfile"
    by (simp add: store_defs example_defs)
  have g: "findProfileByPlatiumId (ru_id guestUser) (db world3) = Some guestProfile"
    by (simp add: store_defs example_defs)
  have n: "findParticipant ''zz'' (up_id hostProfile) (db world3) = None"
    by (simp add: store_defs example_defs)
  have r: "findParticipant ''s1'' (up_id guestProfile) (db world3)
       = Some (guestRow\<lparr>leftAt := Some 1800000\<rparr>)"
    by (simp add: store_defs example_defs)
  have 1: "leaveSession env4 hostUser ''zz'' world3
       = (Reply 500 (ErrorBody ''Failed to leave session''), world3)"
    using leaveSession_effect[OF h, of "''zz''" env4] n by blast
  have 2: "fst (leaveSession env4 guestUser ''s1'' world3) = Reply 200 SuccessBody
     \<and> sessionParticipants (db (snd (leaveSession env4 guestUser ''s1'' world3)))
       = map (\<lambda>q. if sp_sessionId q = ''s1'' \<and> sp_userId q = up_id guestProfile
                          then q\<lparr>leftAt := Some (env_now env4)\<rparr> else q)
                  (sessionParticipants (db world3))
     \<and> gameSessions (db (snd (leaveSession env4 guestUser ''s1'' world3)))
       = gameSessions (db world3)"
    using leaveSession_effect[OF g, of "''s1''" env4] r by simp
  have 3: "map (\<lambda>q. if sp_sessionId q = ''s1'' \<and> sp_userId q = up_id guestProfile
                          then q\<lparr>leftAt := Some (env_now env4)\<rparr> else q)
                  (sessionParticipants (db world3)) = [hostRow, guestRow\<lparr>leftAt := Some 2400000\<rparr>]"
    by (simp add: example_defs)
  have 4: "gameSessions (db world3) = [session1]" by (simp add: example_defs)
  from h g n r 1 2 3 4 show ?thesis by simp
qed

text \<open>
  A second leave after a successful one is not refused: it succeeds and moves left-at from
  the time of the first leave to the time of the second. A leave with no row at all is
  answered with the general failure, not with a not-found reply.
\<close>

theorem leaveSession_twice_counterexample:
  "fst (leaveSession env3 guestUser ''s1'' world2) = Reply 200 SuccessBody
   \<and> map_option leftAt
        (findParticipant ''s1'' ''u2'' (db (snd (leaveSession env3 guestUser ''s1'' world2))))
       = Some (Some 1800000)
   \<and> fst (leaveSession env4 guestUser ''s1'' (snd (leaveSession env3 guestUser ''s1'' world2)))
       = Reply 200 SuccessBody
   \<and> map_option leftAt
        (findParticipant ''s1'' ''u2''
           (db (snd (leaveSession env4 guestUser ''s1''
                       (snd (leaveSession env3 guestUser ''s1'' world2))))))
       = Some (Some 2400000)
   \<and> fst (leaveSession env4 hostUser ''zz'' world2)
       = Reply 500 (ErrorBody ''Failed to leave session'')"
  by (simp add: handler_defs store_defs example_defs)

section \<open>The player and spectator counters\<close>

lemma joinSession_gameSessions:
  "gameSessions (db (snd (joinSession e u sid r w))) = gameSessions (db w)"
proof (cases "getOrCreateProfile e u (db w)")
  case None
  then show ?thesis by (simp add: joinSession_def Let_def)
next
  case (Some a)
  obtain d1 p where a: "a = (d1, p)" by (cases a)
  note t = getOrCreateProfile_tables(1)[OF Some[unfolded a]]
  have c: "gameSessions d2 = gameSessions d1"
    if "createSessionParticipant x d1 = Some d2" for x d2
    using that by (auto simp: createSessionParticipant_def split: if_splits)
  show ?thesis
    using Some a t c
    by (auto simp: joinSession_def Let_def split: option.splits)
qed

lemma leaveSession_gameSessions:
  "gameSessions (db (snd (leaveSession e u sid w))) = gameSessions (db w)"
  by (auto simp: leaveSession_def updateSessionParticipant_def split: option.splits if_splits)

lemma runRequests_gameSessions:
  "gameSessions (db (runRequests sid rs w)) = gameSessions (db w)"
  unfolding runRequests_def
proof (induction rs arbitrary: w)
  case Nil
  show ?case by simp
next
  case (Cons x rs)
  have "gameSessions (db (applyRequest sid w x)) = gameSessions (db w)"
    by (cases x) (simp_all add: joinSession_gameSessions leaveSession_gameSessions)
  with Cons.IH[of "applyRequest sid w x"] show ?case by simp
qed

lemma joinSession_presentPlayers:
  assumes "httpStatus (fst (joinSession e u sid (Some PLAYER) w)) = 200"
  shows "presentPlayers sid (db (snd (joinSession e u sid (Some PLAYER) w)))
           = presentPlayers sid (db w) + 1"
proof -
  from joinSession_success_state[OF assms] obtain d1 p where
    g: "getOrCreateProfile e u (db w) = Some (d1, p)"
    and d: "db (snd (joinSession e u sid (Some PLAYER) w))
              = d1\<lparr>sessionParticipants := sessionParticipants d1
                     @ [newParticipant e sid (up_id p) (requestedRole (Some PLAYER)) False]\<rparr>"
    by blast
  from getOrCreateProfile_tables(2)[OF g] d show ?thesis
    by (simp add: presentPlayers_def newParticipant_def requestedRole_def)
qed

text \<open>
  Claim C1 does not hold of the code. The join handler refuses a player when the session's
  \<open>current_players\<close> has reached \<open>max_players\<close>, but no handler ever writes that counter.
  In the run below the host creates a session for two players and a guest joins as a
  player: the join succeeds, two player rows are present, and the counter is 0 as before.
  A third user then joins as a player and is let in as well: three players are present in
  a session for two.
\<close>

theorem capacity_not_enforced:
  "createSession names1 env1 hostUser body1 world0
     = (Reply 201 (CreatedBody ''s1'' (Some ''AAAAAA'')), world1)
   \<and> map_option maxPlayers (findSession ''s1'' (db world1)) = Some 2
   \<and> map_option currentPlayers (findSession ''s1'' (db world1)) = Some 0
   \<and> presentPlayers ''s1'' (db world1) = 1
   \<and> joinSession env2 guestUser ''s1'' (Some PLAYER) world1
       = (Reply 200 (JoinedBody guestRow session1), world2)
   \<and> map_option currentPlayers (findSession ''s1'' (db world2)) = Some 0
   \<and> presentPlayers ''s1'' (db world2) = 2
   \<and> httpStatus (fst (joinSession env3 thirdUser ''s1'' (Some PLAYER) world2)) = 200
   \<and> map_option currentPlayers
        (findSession ''s1'' (db (snd (joinSession env3 thirdUser ''s1'' (Some PLAYER) world2))))
       = Some 0
   \<and> presentPlayers ''s1'' (db (snd (joinSession env3 thirdUser ''s1'' (Some PLAYER) world2))) = 3"
proof -
  have a: "map_option maxPlayers (findSession ''s1'' (db world1)) = Some 2"
    "map_option currentPlayers (findSession ''s1'' (db world1)) = Some 0"
    "presentPlayers ''s1'' (db world1) = 1"
    "map_option currentPlayers (findSession ''s1'' (db world2)) = Some 0"
    "presentPlayers ''s1'' (db world2) = 2"
    by (simp_all add: presentPlayers_def store_defs example_defs)
  have b: "httpStatus (fst (joinSession env3 thirdUser ''s1'' (Some PLAYER) world2)) = 200"
    "map_option currentPlayers
        (findSession ''s1'' (db (snd (joinSession env3 thirdUser ''s1'' (Some PLAYER) world2))))
       = Some 0"
    "presentPlayers ''s1'' (db (snd (joinSession env3 thirdUser ''s1'' (Some PLAYER) world2))) = 3"
    by (simp_all add: presentPlayers_def handler_defs store_defs example_defs thirdUser_def)
  from world1_created world2_joined a b show ?thesis by simp
qed

section \<open>Ending a session\<close>

lemma find_map_session:
  assumes "\<And>x. gs_id (f x) = gs_id x"
  shows "find (\<lambda>t. gs_id t = sid) (map (\<lambda>t. if gs_id t = sid then f t else t) xs)
           = map_option f (find (\<lambda>t. gs_id t = sid) xs)"
  by (induction xs) (auto simp: assms)

lemma updateGameSession_found:
  assumes "findSession sid d = Some s"
  shows "updateGameSession sid f d
           = Some (d\<lparr>gameSessions := map (\<lambda>t. if gs_id t = sid then f t else t) (gameSessions d)\<rparr>)"
proof -
  from assms have "find (\<lambda>t. gs_id t = sid) (gameSessions d) \<noteq> None"
    by (simp add: findSession_def)
  then have "list_ex (\<lambda>t. gs_id t = sid) (gameSessions d)"
    by (simp add: find_None_list_ex)
  then show ?thesis by (simp add: updateGameSession_def)
qed

lemma ending_then_ended:
  "map (\<lambda>t. if gs_id t = sid then t\<lparr>status := ENDED\<rparr> else t)
     (map (\<lambda>t. if gs_id t = sid then t\<lparr>status := ENDING, endedAt := Some n\<rparr> else t) xs)
   = map (\<lambda>t. if gs_id t = sid then t\<lparr>status := ENDED, endedAt := Some n\<rparr> else t) xs"
  by (induction xs) auto

lemma endSession_run:
  assumes "findSession sid (db w) = Some s"
    and "Some (createdBy s) = map_option up_id (findProfileByPlatiumId (ru_id u) (db w))"
  shows "markEnding e sid (db w)
           = Some ((db w)\<lparr>gameSessions :=
                 map (\<lambda>t. if gs_id t = sid then t\<lparr>status := ENDING, endedAt := Some (env_now e)\<rparr> else t)
                   (gameSessions (db w))\<rparr>)"
    and "endSession e u sid w
           = (Reply 200 SuccessBody,
              w\<lparr>db := (db w)\<lparr>gameSessions :=
                        map (\<lambda>t. if gs_id t = sid
                                  then t\<lparr>status := ENDED, endedAt := Some (env_now e)\<rparr> else t)
                          (gameSessions (db w)),
                      sessionParticipants :=
                        map (\<lambda>p. if sp_sessionId p = sid \<and> leftAt p = None
                                  then p\<lparr>leftAt := Some (env_now e)\<rparr> else p)
                          (sessionParticipants (db w))\<rparr>,
                emitted := emitted w @ [(room sid, ''session_ended'', [])]\<rparr>)"
    and "Option.bind (markEnding e sid (db w)) (\<lambda>d1. markEnded sid (markParticipantsLeft e sid d1))
           = Some ((db w)\<lparr>gameSessions :=
                        map (\<lambda>t. if gs_id t = sid
                                  then t\<lparr>status := ENDED, endedAt := Some (env_now e)\<rparr> else t)
                          (gameSessions (db w)),
                      sessionParticipants :=
                        map (\<lambda>p. if sp_sessionId p = sid \<and> leftAt p = None
                                  then p\<lparr>leftAt := Some (env_now e)\<rparr> else p)
                          (sessionParticipants (db w))\<rparr>)"
proof -
  let ?d1 = "(db w)\<lparr>gameSessions :=
                 map (\<lambda>t. if gs_id t = sid then t\<lparr>status := ENDING, endedAt := Some (env_now e)\<rparr> else t)
                   (gameSessions (db w))\<rparr>"
  show m: "markEnding e sid (db w) = Some ?d1"
    unfolding markEnding_def by (rule updateGameSession_found[OF assms(1)])
  let ?d2 = "markParticipantsLeft e sid ?d1"
  have "findSession sid ?d2 = Some (s\<lparr>status := ENDING, endedAt := Some (env_now e)\<rparr>)"
    using assms(1)
    by (simp add: findSession_def markParticipantsLeft_def updateManySessionParticipants_def
        find_map_session)
  from updateGameSession_found[OF this]
  have "markEnded sid ?d2
          = Some (?d2\<lparr>gameSessions :=
                 map (\<lambda>t. if gs_id t = sid then t\<lparr>status := ENDED\<rparr> else t) (gameSessions ?d2)\<rparr>)"
    by (simp add: markEnded_def)
  then have fin: "markEnded sid ?d2
          = Some ((db w)\<lparr>gameSessions :=
                        map (\<lambda>t. if gs_id t = sid
                                  then t\<lparr>status := ENDED, endedAt := Some (env_now e)\<rparr> else t)
                          (gameSessions (db w)),
                      sessionParticipants :=
                        map (\<lambda>p. if sp_sessionId p = sid \<and> leftAt p = None
                                  then p\<lparr>leftAt := Some (env_now e)\<rparr> else p)
                          (sessionParticipants (db w))\<rparr>)"
    by (simp add: markParticipantsLeft_def updateManySessionParticipants_def ending_then_ended)
  with fin m assms show "endSession e u sid w
           = (Reply 200 SuccessBody,
              w\<lparr>db := (db w)\<lparr>gameSessions :=
                        map (\<lambda>t. if gs_id t = sid
                                  then t\<lparr>status := ENDED, endedAt := Some (env_now e)\<rparr> else t)
                          (gameSessions (db w)),
                      sessionParticipants :=
                        map (\<lambda>p. if sp_sessionId p = sid \<and> leftAt p = None
                                  then p\<lparr>leftAt := Some (env_now e)\<rparr> else p)
                          (sessionParticipants (db w))\<rparr>,
                emitted := emitted w @ [(room sid, ''session_ended'', [])]\<rparr>)"
    by (simp add: endSession_def)
  from m fin show "Option.bind (markEnding e sid (db w))
             (\<lambda>d1. markEnded sid (markParticipantsLeft e sid d1))
           = Some ((db w)\<lparr>gameSessions :=
                        map (\<lambda>t. if gs_id t = sid
                                  then t\<lparr>status := ENDED, endedAt := Some (env_now e)\<rparr> else t)
                          (gameSessions (db w)),
                      sessionParticipants :=
                        map (\<lambda>p. if sp_sessionId p = sid \<and> leftAt p = None
                                  then p\<lparr>leftAt := Some (env_now e)\<rparr> else p)
                          (sessionParticipants (db w))\<rparr>)"
    by simp
qed

lemma finalized_durations:
  "map totalDurationMinutes
     (map (\<lambda>p. if sp_sessionId p = sid \<and> leftAt p = None then p\<lparr>leftAt := Some n\<rparr> else p) xs)
   = map totalDurationMinutes xs"
  by (induction xs) auto

lemma finalized_none_present:
  "\<not> list_ex (\<lambda>p. sp_sessionId p = sid \<and> leftAt p = None)
       (map (\<lambda>p. if sp_sessionId p = sid \<and> leftAt p = None then p\<lparr>leftAt := Some n\<rparr> else p) xs)"
  by (induction xs) auto

lemma finalized_again:
  "map (\<lambda>p. if sp_sessionId p = sid \<and> leftAt p = None then p\<lparr>leftAt := Some m\<rparr> else p)
     (map (\<lambda>p. if sp_sessionId p = sid \<and> leftAt p = None then p\<lparr>leftAt := Some n\<rparr> else p) xs)
   = map (\<lambda>p. if sp_sessionId p = sid \<and> leftAt p = None then p\<lparr>leftAt := Some n\<rparr> else p) xs"
  by (induction xs) auto

text \<open>
  Claim C4, as the code has it. When the host ends an existing session, whatever its
  status, the request succeeds; the status is first written as ending, together with
  ended-at, and last as ended; every participant row of the session with left-at null
  gets left-at set to the current time, and afterwards no row of the session is present;
  the accumulated duration of every row stays as it was; no session-history row is
  written; one \<open>session_ended\<close> event goes to the session's room.
\<close>

theorem endSession_success:
  assumes "findSession sid (db w) = Some s"
    and "Some (createdBy s) = map_option up_id (findProfileByPlatiumId (ru_id u) (db w))"
  shows "fst (endSession e u sid w) = Reply 200 SuccessBody
     \<and> Option.bind (markEnding e sid (db w)) (findSession sid)
         = Some (s\<lparr>status := ENDING, endedAt := Some (env_now e)\<rparr>)
     \<and> Option.bind (markEnding e sid (db w)) (\<lambda>d1. markEnded sid (markParticipantsLeft e sid d1))
         = Some (db (snd (endSession e u sid w)))
     \<and> findSession sid (db (snd (endSession e u sid w)))
         = Some (s\<lparr>status := ENDED, endedAt := Some (env_now e)\<rparr>)
     \<and> sessionParticipants (db (snd (endSession e u sid w)))
         = map (\<lambda>p. if sp_sessionId p = sid \<and> leftAt p = None
                     then p\<lparr>leftAt := Some (env_now e)\<rparr> else p)
             (sessionParticipants (db w))
     \<and> \<not> list_ex (\<lambda>p. sp_sessionId p = sid \<and> leftAt p = None)
           (sessionParticipants (db (snd (endSession e u sid w))))
     \<and> map totalDurationMinutes (sessionParticipants (db (snd (endSession e u sid w))))
         = map totalDurationMinutes (sessionParticipants (db w))
     \<and> sessionHistory (db (snd (endSession e u sid w))) = sessionHistory (db w)
     \<and> emitted (snd (endSession e u sid w)) = emitted w @ [(room sid, ''session_ended'', [])]"
proof -
  note r = endSession_run[OF assms, of e]
  have 1: "fst (endSession e u sid w) = Reply 200 SuccessBody"
    by (simp add: r(2))
  have 2: "Option.bind (markEnding e sid (db w)) (findSession sid)
         = Some (s\<lparr>status := ENDING, endedAt := Some (env_now e)\<rparr>)"
    using assms(1) by (simp add: r(1) findSession_def find_map_session)
  have 3: "Option.bind (markEnding e sid (db w)) (\<lambda>d1. markEnded sid (markParticipantsLeft e sid d1))
         = Some (db (snd (endSession e u sid w)))"
    by (simp add: r(2,3))
  have 4: "findSession sid (db (snd (endSession e u sid w)))
         = Some (s\<lparr>status := ENDED, endedAt := Some (env_now e)\<rparr>)"
    using assms(1) by (simp add: r(2) findSession_def find_map_session)
  have 5: "sessionParticipants (db (snd (endSession e u sid w)))
         = map (\<lambda>p. if sp_sessionId p = sid \<and> leftAt p = None
                     then p\<lparr>leftAt := Some (env_now e)\<rparr> else p)
             (sessionParticipants (db w))"
    by (simp add: r(2))
  have 6: "\<not> list_ex (\<lambda>p. sp_sessionId p = sid \<and> leftAt p = None)
           (sessionParticipants (db (snd (endSession e u sid w))))"
    unfolding 5 by (rule finalized_none_present)
  have 7: "map totalDurationMinutes (sessionParticipants (db (snd (endSession e u sid w))))
         = map totalDurationMinutes (sessionParticipants (db w))"
    unfolding 5 by (rule finalized_durations)
  have 8: "sessionHistory (db (snd (endSession e u sid w))) = sessionHistory (db w)"
    by (simp add: r(2))
  have 9: "emitted (snd (endSession e u sid w)) = emitted w @ [(room sid, ''session_ended'', [])]"
    by (simp add: r(2))
  from 1 2 3 4 5 6 7 8 9 show ?thesis by blast
qed

theorem endSession_success_witness:
  "findSession ''s1'' (db world2) = Some session1
   \<and> Some (createdBy session1)
       = map_option up_id (findProfileByPlatiumId (ru_id hostUser) (db world2))
   \<and> fst (endSession env4 hostUser ''s1'' world2) = Reply 200 SuccessBody
   \<and> Option.bind (markEnding env4 ''s1'' (db world2)) (findSession ''s1'')
       = Some (session1\<lparr>status := ENDING, endedAt := Some 2400000\<rparr>)
   \<and> findSession ''s1'' (db (snd (endSession env4 hostUser ''s1'' world2)))
       = Some (session1\<lparr>status := ENDED, endedAt := Some 2400000\<rparr>)
   \<and> sessionParticipants (db (snd (endSession env4 hostUser ''s1'' world2)))
       = [hostRow\<lparr>leftAt := Some 2400000\<rparr>, guestRow\<lparr>leftAt := Some 2400000\<rparr>]
   \<and> sessionHistory (db (snd (endSession env4 hostUser ''s1'' world2))) = []"
proof -
  have a: "findSession ''s1'' (db world2) = Some session1"
    by (simp add: store_defs example_defs)
  have b: "Some (createdBy session1)
       = map_option up_id (findProfileByPlatiumId (ru_id hostUser) (db world2))"
    by (simp add: store_defs example_defs)
  have c: "map (\<lambda>p. if sp_sessionId p = ''s1'' \<and> leftAt p = None
                     then p\<lparr>leftAt := Some (env_now env4)\<rparr> else p)
             (sessionParticipants (db world2))
           = [hostRow\<lparr>leftAt := Some 2400000\<rparr>, guestRow\<lparr>leftAt := Some 2400000\<rparr>]"
    by (simp add: example_defs)
  have d: "sessionHistory (db world2) = []" "env_now env4 = 2400000"
    by (simp_all add: example_defs)
  from endSession_success[OF a b, of env4] a b c d show ?thesis by simp
qed

text \<open>
  The host ends the session forty minutes after creating it, the guest still in it: the
  request succeeds, both rows get left-at, no session-history row exists afterwards, and
  both accumulated durations are still 0.
\<close>

theorem endSession_history_counterexample:
  "fst (endSession env4 hostUser ''s1'' world2) = Reply 200 SuccessBody
   \<and> sessionHistory (db (snd (endSession env4 hostUser ''s1'' world2))) = []
   \<and> map joinedAt (sessionParticipants (db (snd (endSession env4 hostUser ''s1'' world2))))
       = [600000, 1200000]
   \<and> map leftAt (sessionParticipants (db (snd (endSession env4 hostUser ''s1'' world2))))
       = [Some 2400000, Some 2400000]
   \<and> map totalDurationMinutes
        (sessionParticipants (db (snd (endSession env4 hostUser ''s1'' world2))))
       = [0, 0]"
proof -
  have j: "endSession env4 hostUser ''s1'' world2 = (Reply 200 SuccessBody, world4)"
    by (rule world4_ended)
  show ?thesis unfolding j by (simp add: example_defs)
qed

section \<open>Requests on a session that has ended\<close>

lemma endSession_keeps_host:
  assumes "findSession sid (db w) = Some s"
    and "Some (createdBy s) = map_option up_id (findProfileByPlatiumId (ru_id u) (db w))"
  shows "findSession sid (db (snd (endSession e u sid w)))
           = Some (s\<lparr>status := ENDED, endedAt := Some (env_now e)\<rparr>)"
    and "Some (createdBy (s\<lparr>status := ENDED, endedAt := Some (env_now e)\<rparr>))
           = map_option up_id
               (findProfileByPlatiumId (ru_id u) (db (snd (endSession e u sid w))))"
  using assms
  by (simp_all add: endSession_run(2)[OF assms] findSession_def find_map_session
      findProfileByPlatiumId_def)

text \<open>
  Claim C2, as the code has it. When the host has ended a session and ends it again, the
  second call succeeds as the first did: it writes the status as ending and then as ended
  once more, moves ended-at to the time of the second call and emits \<open>session_ended\<close> a
  second time; it changes no participant row, so no left-at and no duration is accounted
  twice, and no session-history row is written by either call. Of the requests that write,
  only a join is refused on a session whose status is ended or error, with the reply it also
  gives for a session that does not exist; a leave by a user who has a row in such a session
  succeeds and sets left-at.
\<close>

theorem endSession_again:
  assumes "findSession sid (db w) = Some s"
    and "Some (createdBy s) = map_option up_id (findProfileByPlatiumId (ru_id u) (db w))"
  shows "fst (endSession e u sid w) = Reply 200 SuccessBody
     \<and> findSession sid (db (snd (endSession e u sid w)))
         = Some (s\<lparr>status := ENDED, endedAt := Some (env_now e)\<rparr>)
     \<and> Option.bind (markEnding e' sid (db (snd (endSession e u sid w)))) (findSession sid)
         = Some (s\<lparr>status := ENDING, endedAt := Some (env_now e')\<rparr>)
     \<and> endSession e' u sid (snd (endSession e u sid w))
         = (Reply 200 SuccessBody,
            (snd (endSession e u sid w))
              \<lparr>db := (db (snd (endSession e u sid w)))
                        \<lparr>gameSessions :=
                           map (\<lambda>t. if gs_id t = sid
                                     then t\<lparr>status := ENDED, endedAt := Some (env_now e')\<rparr> else t)
                             (gameSessions (db (snd (endSession e u sid w))))\<rparr>,
                emitted := emitted w @ [(room sid, ''session_ended'', []),
                                        (room sid, ''session_ended'', [])]\<rparr>)
     \<and> findSession sid (db (snd (endSession e' u sid (snd (endSession e u sid w)))))
         = Some (s\<lparr>status := ENDED, endedAt := Some (env_now e')\<rparr>)
     \<and> sessionParticipants (db (snd (endSession e' u sid (snd (endSession e u sid w)))))
         = sessionParticipants (db (snd (endSession e u sid w)))
     \<and> sessionHistory (db (snd (endSession e' u sid (snd (endSession e u sid w)))))
         = sessionHistory (db w)
     \<and> (\<forall>g v r d1 p. getOrCreateProfile g v (db w) = Some (d1, p)
            \<and> (status s = ENDED \<or> status s = ERROR)
          \<longrightarrow> fst (joinSession g v sid r w)
                = Reply 404 (ErrorBody ''Session not found or not active''))
     \<and> (\<forall>g v p. findProfileByPlatiumId (ru_id v) (db w) = Some p
            \<and> findParticipant sid (up_id p) (db w) \<noteq> None
            \<and> (status s = ENDED \<or> status s = ERROR)
          \<longrightarrow> fst (leaveSession g v sid w) = Reply 200 SuccessBody
            \<and> sessionParticipants (db (snd (leaveSession g v sid w)))
                = map (\<lambda>q. if sp_sessionId q = sid \<and> sp_userId q = up_id p
                            then q\<lparr>leftAt := Some (env_now g)\<rparr> else q)
                    (sessionParticipants (db w)))"
proof -
  let ?w1 = "snd (endSession e u sid w)"
  let ?s1 = "s\<lparr>status := ENDED, endedAt := Some (env_now e)\<rparr>"
  note k = endSession_keeps_host[OF assms, of e]
  note first = endSession_run(2)[OF assms, of e]
  note second = endSession_run[OF k, of e']
  have 1: "fst (endSession e u sid w) = Reply 200 SuccessBody"
    by (simp add: first)
  have 2: "findSession sid (db ?w1) = Some ?s1" by (rule k(1))
  have 3: "Option.bind (markEnding e' sid (db ?w1)) (findSession sid)
         = Some (s\<lparr>status := ENDING, endedAt := Some (env_now e')\<rparr>)"
    using k(1) by (simp add: second(1) findSession_def find_map_session)
  have p1: "sessionParticipants (db ?w1)
         = map (\<lambda>p. if sp_sessionId p = sid \<and> leftAt p = None
                     then p\<lparr>leftAt := Some (env_now e)\<rparr> else p)
             (sessionParticipants (db w))"
    by (simp add: first)
  have same: "map (\<lambda>p. if sp_sessionId p = sid \<and> leftAt p = None
                     then p\<lparr>leftAt := Some (env_now e')\<rparr> else p)
             (sessionParticipants (db ?w1)) = sessionParticipants (db ?w1)"
    unfolding p1 by (rule finalized_again)
  have em: "emitted ?w1 = emitted w @ [(room sid, ''session_ended'', [])]"
    by (simp add: first)
  have 4: "endSession e' u sid ?w1
         = (Reply 200 SuccessBody,
            ?w1\<lparr>db := (db ?w1)
                        \<lparr>gameSessions :=
                           map (\<lambda>t. if gs_id t = sid
                                     then t\<lparr>status := ENDED, endedAt := Some (env_now e')\<rparr> else t)
                             (gameSessions (db ?w1))\<rparr>,
                emitted := emitted w @ [(room sid, ''session_ended'', []),
                                        (room sid, ''session_ended'', [])]\<rparr>)"
    unfolding second(2) same em by simp
  have 5: "findSession sid (db (snd (endSession e' u sid ?w1)))
         = Some (s\<lparr>status := ENDED, endedAt := Some (env_now e')\<rparr>)"
    using endSession_keeps_host(1)[OF k, of e'] by simp
  have 6: "sessionParticipants (db (snd (endSession e' u sid ?w1))) = sessionParticipants (db ?w1)"
    unfolding 4 by simp
  have h1: "sessionHistory (db ?w1) = sessionHistory (db w)"
    by (simp add: first)
  have 7: "sessionHistory (db (snd (endSession e' u sid ?w1))) = sessionHistory (db w)"
    unfolding 4 using h1 by simp
  have 8: "fst (joinSession g v sid r w) = Reply 404 (ErrorBody ''Session not found or not active'')"
    if "getOrCreateProfile g v (db w) = Some (d1, p)" "status s = ENDED \<or> status s = ERROR"
    for g v r d1 p
  proof -
    from that(2) have "status s \<noteq> ACTIVE" by auto
    from joinSession_not_active[OF that(1) assms(1) this] show ?thesis .
  qed
  have 9: "fst (leaveSession g v sid w) = Reply 200 SuccessBody
            \<and> sessionParticipants (db (snd (leaveSession g v sid w)))
                = map (\<lambda>q. if sp_sessionId q = sid \<and> sp_userId q = up_id p
                            then q\<lparr>leftAt := Some (env_now g)\<rparr> else q)
                    (sessionParticipants (db w))"
    if "findProfileByPlatiumId (ru_id v) (db w) = Some p"
      "findParticipant sid (up_id p) (db w) \<noteq> None"
    for g v p
    using that(1) updateSessionParticipant_Some[OF that(2)] by (simp add: leaveSession_def)
  from 1 2 3 4 5 6 7 8 9 show ?thesis by blast
qed

theorem endSession_again_witness:
  "findSession ''s1'' (db world2) = Some session1
   \<and> Some (createdBy session1)
       = map_option up_id (findProfileByPlatiumId (ru_id hostUser) (db world2))
   \<and> endSession env4 hostUser ''s1'' world2 = (Reply 200 SuccessBody, world4)
   \<and> endSession env5 hostUser ''s1'' world4
       = (Reply 200 SuccessBody,
          world4\<lparr>db := (db world4)\<lparr>gameSessions :=
                          [session1\<lparr>status := ENDED, endedAt := Some 3000000\<rparr>]\<rparr>,
                 emitted := emitted world2 @ [(Room ''session:s1'', ''session_ended'', []),
                                              (Room ''session:s1'', ''session_ended'', [])]\<rparr>)
   \<and> findSession ''s1'' (db world4) = Some (session1\<lparr>status := ENDED, endedAt := Some 2400000\<rparr>)
   \<and> Some (createdBy (session1\<lparr>status := ENDED, endedAt := Some 2400000\<rparr>))
       = map_option up_id (findProfileByPlatiumId (ru_id hostUser) (db world4))
   \<and> getOrCreateProfile env5 guestUser (db world4) = Some (db world4, guestProfile)
   \<and> fst (joinSession env5 guestUser ''s1'' (Some SPECTATOR) world4)
       = Reply 404 (ErrorBody ''Session not found or not active'')
   \<and> findProfileByPlatiumId (ru_id guestUser) (db world4) = Some guestProfile
   \<and> fst (leaveSession env5 guestUser ''s1'' world4) = Reply 200 SuccessBody
   \<and> sessionParticipants (db (snd (leaveSession env5 guestUser ''s1'' world4)))
       = [hostRow\<lparr>leftAt := Some 2400000\<rparr>, guestRow\<lparr>leftAt := Some 3000000\<rparr>]"
proof -
  have a: "findSession ''s1'' (db world2) = Some session1"
    by (simp add: store_defs example_defs)
  have b: "Some (createdBy session1)
       = map_option up_id (findProfileByPlatiumId (ru_id hostUser) (db world2))"
    by (simp add: store_defs example_defs)
  have a4: "findSession ''s1'' (db world4) = Some (session1\<lparr>status := ENDED, endedAt := Some 2400000\<rparr>)"
    by (simp add: store_defs example_defs)
  have b4: "Some (createdBy (session1\<lparr>status := ENDED, endedAt := Some 2400000\<rparr>))
       = map_option up_id (findProfileByPlatiumId (ru_id hostUser) (db world4))"
    by (simp add: store_defs example_defs)
  have g: "getOrCreateProfile env5 guestUser (db world4) = Some (db world4, guestProfile)"
    by (simp add: handler_defs store_defs example_defs)
  have t: "status (session1\<lparr>status := ENDED, endedAt := Some 2400000\<rparr>) = ENDED"
    by simp
  have p: "findProfileByPlatiumId (ru_id guestUser) (db world4) = Some guestProfile"
    "findParticipant ''s1'' (up_id guestProfile) (db world4) \<noteq> None"
    by (simp_all add: store_defs example_defs)
  note T4 = endSession_again[OF a4 b4]
  have j: "fst (joinSession env5 guestUser ''s1'' (Some SPECTATOR) world4)
       = Reply 404 (ErrorBody ''Session not found or not active'')"
    using T4 g t by blast
  have l: "fst (leaveSession env5 guestUser ''s1'' world4) = Reply 200 SuccessBody
            \<and> sessionParticipants (db (snd (leaveSession env5 guestUser ''s1'' world4)))
                = map (\<lambda>q. if sp_sessionId q = ''s1'' \<and> sp_userId q = up_id guestProfile
                            then q\<lparr>leftAt := Some (env_now env5)\<rparr> else q)
                    (sessionParticipants (db world4))"
    using T4 p t by blast
  have lv: "map (\<lambda>q. if sp_sessionId q = ''s1'' \<and> sp_userId q = up_id guestProfile
                            then q\<lparr>leftAt := Some (env_now env5)\<rparr> else q)
                    (sessionParticipants (db world4))
            = [hostRow\<lparr>leftAt := Some 2400000\<rparr>, guestRow\<lparr>leftAt := Some 3000000\<rparr>]"
    by (simp add: example_defs)
  have two: "endSession env5 hostUser ''s1'' (snd (endSession env4 hostUser ''s1'' world2))
         = (Reply 200 SuccessBody,
            (snd (endSession env4 hostUser ''s1'' world2))
              \<lparr>db := (db (snd (endSession env4 hostUser ''s1'' world2)))
                        \<lparr>gameSessions :=
                           map (\<lambda>t. if gs_id t = ''s1''
                                     then t\<lparr>status := ENDED, endedAt := Some (env_now env5)\<rparr> else t)
                             (gameSessions (db (snd (endSession env4 hostUser ''s1'' world2))))\<rparr>,
                emitted := emitted world2 @ [(room ''s1'', ''session_ended'', []),
                                        (room ''s1'', ''session_ended'', [])]\<rparr>)"
    using endSession_again[OF a b, of env4 env5] by blast
  have e5: "endSession env5 hostUser ''s1'' world4
       = (Reply 200 SuccessBody,
          world4\<lparr>db := (db world4)\<lparr>gameSessions :=
                          [session1\<lparr>status := ENDED, endedAt := Some 3000000\<rparr>]\<rparr>,
                 emitted := emitted world2 @ [(Room ''session:s1'', ''session_ended'', []),
                                              (Room ''session:s1'', ''session_ended'', [])]\<rparr>)"
    using two unfolding world4_ended snd_conv
    by (simp add: room_def) (simp add: example_defs)
  from a b world4_ended e5 a4 b4 g j p(1) l lv show ?thesis by simp
qed

text \<open>
  On the session the host has ended: a second end by the host succeeds, and so does a
  leave by the guest; neither is answered with a not-active error.
\<close>

theorem endSession_twice_counterexample:
  "map_option status (findSession ''s1'' (db world4)) = Some ENDED
   \<and> fst (endSession env5 hostUser ''s1'' world4) = Reply 200 SuccessBody
   \<and> fst (leaveSession env5 guestUser ''s1'' world4) = Reply 200 SuccessBody"
  by (simp add: handler_defs store_defs example_defs)

section \<open>Join codes of created sessions\<close>

lemma createGameSession_Some:
  assumes "createGameSession x d = Some d'"
  shows "d' = d\<lparr>gameSessions := gameSessions d @ [x]\<rparr>"
    and "sessionCode x = Some c \<Longrightarrow> \<not> codeHeld c d"
  using assms by (auto simp: createGameSession_def codeHeld_def split: if_splits)

lemma createSessionParticipant_Some:
  "createSessionParticipant x d = Some d' \<Longrightarrow> gameSessions d' = gameSessions d"
  by (auto simp: createSessionParticipant_def split: if_splits)

lemma updateGameSession_status_codes:
  "updateGameSession sid (\<lambda>t. t\<lparr>status := v\<rparr>) d = Some d'
   \<Longrightarrow> map sessionCode (gameSessions d') = map sessionCode (gameSessions d)"
  by (auto simp: updateGameSession_def split: if_splits)

lemma updateGame_Some:
  "updateGame gid f d = Some d' \<Longrightarrow> gameSessions d' = gameSessions d"
  by (auto simp: updateGame_def split: if_splits)

text \<open>
  A request that names no video quality is given the handler's default \<open>1080p\<close>, which is
  not the name of a member: the ORM refuses the row and no session is made.
\<close>

lemma newSession_default_quality:
  "cb_videoQuality b = None \<Longrightarrow> newSession vq e b p = None"
  by (simp add: newSession_def memberNamed_def isLetter_def Let_def)

lemma newSession_code:
  "newSession vq e b p = Some x \<Longrightarrow> sessionCode x = Some (generateSessionCode (env_random e))"
  by (auto simp: newSession_def Let_def split: option.splits if_splits)

lemma transaction_Some:
  assumes "Option.bind (newSession vq e b p)
             (\<lambda>s. Option.bind (createGameSession s d) (createSessionParticipant y)) = Some d'"
  shows "map sessionCode (gameSessions d')
           = map sessionCode (gameSessions d) @ [Some (generateSessionCode (env_random e))]"
    and "\<not> codeHeld (generateSessionCode (env_random e)) d"
proof -
  from assms obtain x where x: "newSession vq e b p = Some x"
    and r: "Option.bind (createGameSession x d) (createSessionParticipant y) = Some d'"
    by (cases "newSession vq e b p") auto
  from r obtain dm where m: "createGameSession x d = Some dm"
    and p: "createSessionParticipant y dm = Some d'"
    by (cases "createGameSession x d") auto
  note c = newSession_code[OF x]
  from createGameSession_Some(1)[OF m] createSessionParticipant_Some[OF p] c
  show "map sessionCode (gameSessions d')
           = map sessionCode (gameSessions d) @ [Some (generateSessionCode (env_random e))]"
    by simp
  from createGameSession_Some(2)[OF m c]
  show "\<not> codeHeld (generateSessionCode (env_random e)) d" .
qed

lemma createSession_outcome:
  "(gameSessions (db (snd (createSession vq e u b w))) = gameSessions (db w)
      \<and> (httpStatus (fst (createSession vq e u b w)) = 500
          \<or> httpStatus (fst (createSession vq e u b w)) = 400))
   \<or> (\<not> codeHeld (generateSessionCode (env_random e)) (db w)
      \<and> map sessionCode (gameSessions (db (snd (createSession vq e u b w))))
          = map sessionCode (gameSessions (db w)) @ [Some (generateSessionCode (env_random e))]
      \<and> (httpStatus (fst (createSession vq e u b w)) = 500
          \<or> fst (createSession vq e u b w)
              = Reply 201 (CreatedBody (env_sessionId e)
                             (Some (generateSessionCode (env_random e))))))"
proof (cases "getOrCreateProfile e u (db w)")
  case None
  then show ?thesis by (simp add: createSession_def httpStatus_def)
next
  case (Some a)
  obtain d1 p where a: "a = (d1, p)" by (cases a)
  note g = Some[unfolded a]
  note t = getOrCreateProfile_tables(1)[OF g]
  let ?c = "generateSessionCode (env_random e)"
  have held: "codeHeld ?c d1 = codeHeld ?c (db w)"
    by (simp add: codeHeld_def t)
  show ?thesis
  proof (cases "find (\<lambda>s. createdBy s = up_id p \<and> (status s = STARTING \<or> status s = ACTIVE))
                  (gameSessions d1)")
    case (Some ex)
    with g t show ?thesis by (simp add: createSession_def httpStatus_def)
  next
    case None
    note noex = None
    show ?thesis
    proof (cases "Option.bind (newSession vq e b p)
                    (\<lambda>s. Option.bind (createGameSession s d1)
                       (createSessionParticipant
                          (newParticipant e (env_sessionId e) (up_id p) PLAYER True)))")
      case None
      with g noex t show ?thesis by (simp add: createSession_def httpStatus_def)
    next
      case (Some d2)
      from transaction_Some[OF Some]
      have c2: "map sessionCode (gameSessions d2) = map sessionCode (gameSessions (db w)) @ [Some ?c]"
        and free: "\<not> codeHeld ?c (db w)"
        by (simp_all add: t held)
      show ?thesis
      proof (cases "updateGameSession (env_sessionId e) (\<lambda>s. s\<lparr>status := ACTIVE\<rparr>) d2")
        case None
        with g noex Some free c2 show ?thesis
          by (simp add: createSession_def httpStatus_def)
      next
        case (Some d3)
        note u3 = Some
        have c3: "map sessionCode (gameSessions d3) = map sessionCode (gameSessions (db w)) @ [Some ?c]"
          using updateGameSession_status_codes[OF u3] c2 by simp
        show ?thesis
        proof (cases "updateGame (cb_gameId b) (\<lambda>g. g\<lparr>playCount := playCount g + 1\<rparr>) d3")
          case None
          with g noex \<open>Option.bind _ _ = Some d2\<close> u3 free c3 show ?thesis
            by (simp add: createSession_def httpStatus_def)
        next
          case (Some d4)
          have c4: "map sessionCode (gameSessions d4) = map sessionCode (gameSessions (db w)) @ [Some ?c]"
            using updateGame_Some[OF Some] c3 by simp
          with g noex \<open>Option.bind _ _ = Some d2\<close> u3 Some free show ?thesis
            by (simp add: createSession_def httpStatus_def)
        qed
      qed
    qed
  qed
qed

lemma codesDistinct_append:
  assumes "distinct (filter (\<lambda>c. c \<noteq> None) xs)" "Some c \<notin> set xs"
  shows "distinct (filter (\<lambda>c. c \<noteq> None) (xs @ [Some c]))"
  using assms by simp

lemma codeHeld_set: "codeHeld c d \<longleftrightarrow> Some c \<in> set (map sessionCode (gameSessions d))"
  by (auto simp: codeHeld_def list_ex_iff intro: rev_image_eqI)

text \<open>
  Claim C5, as the code has it. \<open>createSession\<close> draws one join code and never a second:
  when the code it drew is held by a session, the request fails (or was refused before,
  for a creator who already has a session) and the session table is what it was.
  A request that succeeds returns the code it drew. Since the store refuses a code that is held,
  creating sessions keeps the join codes of the sessions pairwise different.
\<close>

theorem createSession_codes:
  "(codesDistinct (db w) \<longrightarrow> codesDistinct (db (snd (createSession vq e u b w))))
   \<and> (codeHeld (generateSessionCode (env_random e)) (db w)
      \<longrightarrow> gameSessions (db (snd (createSession vq e u b w))) = gameSessions (db w)
        \<and> (httpStatus (fst (createSession vq e u b w)) = 500
            \<or> httpStatus (fst (createSession vq e u b w)) = 400))
   \<and> (httpStatus (fst (createSession vq e u b w)) = 201
      \<longrightarrow> fst (createSession vq e u b w)
            = Reply 201 (CreatedBody (env_sessionId e) (Some (generateSessionCode (env_random e))))
        \<and> \<not> codeHeld (generateSessionCode (env_random e)) (db w)
        \<and> codeHeld (generateSessionCode (env_random e)) (db (snd (createSession vq e u b w))))"
proof -
  let ?c = "generateSessionCode (env_random e)"
  let ?r = "createSession vq e u b w"
  note o = createSession_outcome[where e=e and u=u and b=b and w=w and vq=vq]
  have 1: "codesDistinct (db (snd ?r))" if "codesDistinct (db w)"
    using o
  proof
    assume "gameSessions (db (snd ?r)) = gameSessions (db w)
      \<and> (httpStatus (fst ?r) = 500 \<or> httpStatus (fst ?r) = 400)"
    with that show ?thesis by (simp add: codesDistinct_def)
  next
    assume n: "\<not> codeHeld ?c (db w)
      \<and> map sessionCode (gameSessions (db (snd ?r)))
          = map sessionCode (gameSessions (db w)) @ [Some ?c]
      \<and> (httpStatus (fst ?r) = 500 \<or> fst ?r = Reply 201 (CreatedBody (env_sessionId e) (Some ?c)))"
    then have "Some ?c \<notin> set (map sessionCode (gameSessions (db w)))"
      by (simp add: codeHeld_set)
    with that have "distinct (filter (\<lambda>c. c \<noteq> None)
                       (map sessionCode (gameSessions (db w)) @ [Some ?c]))"
      unfolding codesDistinct_def by (rule codesDistinct_append)
    with n show ?thesis by (simp add: codesDistinct_def)
  qed
  have 2: "gameSessions (db (snd ?r)) = gameSessions (db w)
        \<and> (httpStatus (fst ?r) = 500 \<or> httpStatus (fst ?r) = 400)"
    if "codeHeld ?c (db w)"
    using o that by blast
  have 3: "fst ?r = Reply 201 (CreatedBody (env_sessionId e) (Some ?c))
        \<and> \<not> codeHeld ?c (db w) \<and> codeHeld ?c (db (snd ?r))"
    if h: "httpStatus (fst ?r) = 201"
    using o
  proof
    assume "gameSessions (db (snd ?r)) = gameSessions (db w)
      \<and> (httpStatus (fst ?r) = 500 \<or> httpStatus (fst ?r) = 400)"
    with h show ?thesis by auto
  next
    assume n: "\<not> codeHeld ?c (db w)
      \<and> map sessionCode (gameSessions (db (snd ?r)))
          = map sessionCode (gameSessions (db w)) @ [Some ?c]
      \<and> (httpStatus (fst ?r) = 500 \<or> fst ?r = Reply 201 (CreatedBody (env_sessionId e) (Some ?c)))"
    then have "codeHeld ?c (db (snd ?r))" by (simp add: codeHeld_set)
    with n h show ?thesis by auto
  qed
  from 1 2 3 show ?thesis by blast
qed

theorem createSession_codes_witness:
  "codesDistinct (db world0)
   \<and> codesDistinct (db (snd (createSession names1 env1 hostUser body1 world0)))
   \<and> httpStatus (fst (createSession names1 env1 hostUser body1 world0)) = 201
   \<and> fst (createSession names1 env1 hostUser body1 world0) = Reply 201 (CreatedBody ''s1'' (Some ''AAAAAA''))
   \<and> generateSessionCode (env_random env2) = ''AAAAAA''
   \<and> codeHeld ''AAAAAA'' (db world1)
   \<and> gameSessions (db (snd (createSession names1 env2 guestUser body1 world1))) = [session1]
   \<and> httpStatus (fst (createSession names1 env2 guestUser body1 world1)) = 500"
proof -
  have a: "codesDistinct (db world0)"
    by (simp add: codesDistinct_def world0_def)
  have b: "httpStatus (fst (createSession names1 env1 hostUser body1 world0)) = 201"
    by (simp add: world1_created httpStatus_def)
  have c: "generateSessionCode (env_random env2) = ''AAAAAA''"
    by (simp add: env2_def handler_defs)
  have d: "codeHeld ''AAAAAA'' (db world1)"
    by (simp add: codeHeld_def example_defs)
  have f: "httpStatus (fst (createSession names1 env2 guestUser body1 world1)) \<noteq> 400"
    by (simp add: handler_defs store_defs example_defs)
  have g: "gameSessions (db world1) = [session1]" "env_sessionId env1 = ''s1''"
    "generateSessionCode (env_random env1) = ''AAAAAA''"
    by (simp_all add: example_defs handler_defs)
  from createSession_codes[where w=world0 and e=env1 and u=hostUser and b=body1 and vq=names1]
    createSession_codes[where w=world1 and e=env2 and u=guestUser and b=body1 and vq=names1]
    a b c d f g
  show ?thesis by simp
qed

text \<open>
  The guest asks for a session while the host's session holds the code \<open>AAAAAA\<close>. The six
  numbers the random source gives first make \<open>AAAAAA\<close> again; the six it would give next make
  \<open>BBBBBB\<close>, which no session holds. The request fails and no session is added: there is no
  second draw. The collision is the only cause: the same request, had its first six numbers
  been those later ones, is answered 201.
\<close>

theorem createSession_retry_counterexample:
  "generateSessionCode (env_random env2) = ''AAAAAA''
   \<and> generateSessionCode (\<lambda>i. env_random env2 (i + 6)) = ''BBBBBB''
   \<and> codeHeld ''AAAAAA'' (db world1)
   \<and> \<not> codeHeld ''BBBBBB'' (db world1)
   \<and> fst (createSession names1 env2 guestUser body1 world1)
       = Reply 500 (ErrorBody ''Failed to create session'')
   \<and> gameSessions (db (snd (createSession names1 env2 guestUser body1 world1)))
       = gameSessions (db world1)
   \<and> fst (createSession names1 (env2\<lparr>env_random := \<lambda>i. env_random env2 (i + 6)\<rparr>)
            guestUser body1 world1)
       = Reply 201 (CreatedBody ''s2'' (Some ''BBBBBB''))"
  by (simp add: handler_defs store_defs example_defs codeHeld_def)

end
